theory Spec2Isabelle
  imports Main "HOL-Library.Word" "HOL-Library.Sublist"
begin

section \<open>JavaScript strings and values\<close>

text \<open>
  A JavaScript string is a sequence of 16-bit code units. \<open>js\<close> writes an ASCII
  literal of the source as such a sequence; a character outside ASCII is given by its
  code unit (the dash of the welcome message is \<open>0x2014\<close>).
\<close>

type_synonym jsstring = "16 word list"

definition js :: "string \<Rightarrow> jsstring" where
  "js s = map of_char s"

text \<open>
  The values the scripts read out of a parsed JSON body and interpolate or assign as text:
  the primitives, and \<open>JUndefined\<close> for a property that is absent. A number is held as
  the decimal text that the language's number-to-string conversion gives it, which is all
  the scripts ever do with one. Arrays and objects as field values are outside the model.
\<close>

datatype jsval = JUndefined | JNull | JBool bool | JNum jsstring | JStr jsstring

text \<open>String conversion, as a template literal's \<^verbatim>\<open>${v}\<close> applies it.\<close>

fun toStr :: "jsval \<Rightarrow> jsstring" where
  "toStr JUndefined = js ''undefined''"
| "toStr JNull = js ''null''"
| "toStr (JBool b) = (if b then js ''true'' else js ''false'')"
| "toStr (JNum t) = t"
| "toStr (JStr s) = s"

text \<open>
  The nodes of the page that the chat script makes: text nodes, and elements with a tag
  and children. Markup assigned through \<^verbatim>\<open>innerHTML\<close> is parsed into elements of
  any tag; text assigned through \<^verbatim>\<open>innerText\<close> is not parsed.
\<close>

datatype node = TextNode jsstring | ElementNode jsstring "node list"

definition br :: node where
  "br = ElementNode (js ''br'') []"

definition text_node :: "jsstring \<Rightarrow> node list" where
  "text_node t = (if t = [] then [] else [TextNode t])"

text \<open>
  The rendered text fragment of a string, which the \<^verbatim>\<open>innerText\<close> setter puts in
  place of the element's children: each run of code units other than CR and LF becomes
  one text node, and each CR LF pair, each other CR and each other LF becomes one
  \<^verbatim>\<open>br\<close> element. \<open>t\<close> is the run collected so far.
\<close>

fun text_fragment :: "jsstring \<Rightarrow> jsstring \<Rightarrow> node list" where
  "text_fragment t [] = text_node t"
| "text_fragment t [c] =
     (if c = 0x0D \<or> c = 0x0A then text_node t @ [br] else text_node (t @ [c]))"
| "text_fragment t (c # d # cs) =
     (if c = 0x0D \<and> d = 0x0A then text_node t @ br # text_fragment [] cs
      else if c = 0x0D \<or> c = 0x0A then text_node t @ br # text_fragment [] (d # cs)
      else text_fragment (t @ [c]) (d # cs))"

text \<open>
  Assigning \<^verbatim>\<open>el.innerText = v\<close>: the attribute converts \<^verbatim>\<open>null\<close> to the empty
  string and every other value by string conversion, and the element's children become
  the rendered text fragment of that string.
\<close>

fun innerText_set :: "jsval \<Rightarrow> node list" where
  "innerText_set JNull = []"
| "innerText_set v = text_fragment [] (toStr v)"

text \<open>
  The text that nodes carry: the data of a text node, a line feed for a \<^verbatim>\<open>br\<close>
  element, the text of its children for any other element. How the text is laid out
  (the collapsing of white space by the style sheet) is not part of it.
\<close>

fun node_text :: "node \<Rightarrow> jsstring" where
  "node_text (TextNode t) = t"
| "node_text (ElementNode tag kids) =
     (if tag = js ''br'' then [0x0A] else concat (map node_text kids))"

fun text_or_br :: "node \<Rightarrow> bool" where
  "text_or_br (TextNode t) = True"
| "text_or_br (ElementNode tag kids) = (tag = js ''br'' \<and> kids = [])"

text \<open>A string with each CR LF pair and each other CR replaced by one line feed.\<close>

fun line_breaks :: "jsstring \<Rightarrow> jsstring" where
  "line_breaks [] = []"
| "line_breaks [c] = (if c = 0x0D then [0x0A] else [c])"
| "line_breaks (c # d # cs) =
     (if c = 0x0D \<and> d = 0x0A then 0x0A # line_breaks cs
      else if c = 0x0D then 0x0A # line_breaks (d # cs)
      else c # line_breaks (d # cs))"

text \<open>
  White space as \<^verbatim>\<open>String.prototype.trim\<close> removes it: the WhiteSpace and
  LineTerminator code points of the language.
\<close>

definition is_ws :: "16 word \<Rightarrow> bool" where
  "is_ws c = (c \<in> {0x09, 0x0A, 0x0B, 0x0C, 0x0D, 0x20, 0xA0, 0x1680, 0x2028, 0x2029,
                    0x202F, 0x205F, 0x3000, 0xFEFF}
              \<or> (0x2000 \<le> c \<and> c \<le> 0x200A))"

definition trim :: "jsstring \<Rightarrow> jsstring" where
  "trim s = rev (dropWhile is_ws (rev (dropWhile is_ws s)))"

section \<open>Promises and fetch\<close>

text \<open>
  What \<^verbatim>\<open>await fetch(...)\<close> followed by \<^verbatim>\<open>await res.json()\<close> delivers to the
  code after them. \<^verbatim>\<open>fetch\<close> rejects only when the request does not complete; a
  response of any status fulfils it. \<^verbatim>\<open>res.json()\<close> rejects when the body is not
  JSON. Neither script runs any statement between the two awaits, so one outcome stands
  for both.
\<close>

datatype 'a body = NotJson | Json 'a

datatype 'a fetch_outcome = NetworkError | Response nat "'a body"

datatype js_error = FetchError | SyntaxError | TypeError

section \<open>The uploader and the result renderer\<close>

text \<open>
  A file, with the text \<^verbatim>\<open>FileReader.readAsDataURL\<close> produces from its bytes (the
  MIME type and the base64 of the content, computed by the browser).
\<close>

record jsfile =
  file_name :: jsstring
  data_url :: jsstring

record analysis_result =
  plant :: jsval
  status :: jsval
  confidence :: jsval
  disease :: jsval
  symptoms :: jsval
  treatments :: jsval
  prevention :: jsval
  care_tips :: jsval

record upload_request =
  upload_url :: jsstring
  upload_method :: jsstring
  upload_form :: "(jsstring \<times> jsfile) list"

text \<open>
  The page as the uploader script sees it: its one variable \<open>selectedFile\<close>, the
  \<^verbatim>\<open>innerHTML\<close> of the preview and results regions, the button's \<open>disabled\<close>
  flag, the \<open>hover\<close> class of the drop area, the file readers whose read has not
  completed yet (oldest first), the requests sent so far, and the rejections of the click
  handler's promise, which nothing handles.
\<close>

record uploader =
  selectedFile :: "jsfile option"
  preview :: jsstring
  analyzeBtn_disabled :: bool
  dropArea_hover :: bool
  reading :: "jsfile list"
  results :: jsstring
  upload_requests :: "upload_request list"
  upload_rejections :: "js_error list"

definition handleFiles :: "jsfile list \<Rightarrow> uploader \<Rightarrow> uploader" where
  "handleFiles files st =
     (if length files > 0 then
        let f = hd files in
        st\<lparr>selectedFile := Some f, reading := reading st @ [f], analyzeBtn_disabled := False\<rparr>
      else st)"

text \<open>The \<open>onload\<close> callback of a reader; \<open>result\<close> is \<^verbatim>\<open>e.target.result\<close>.\<close>

definition reader_onload :: "jsstring \<Rightarrow> uploader \<Rightarrow> uploader" where
  "reader_onload result st =
     st\<lparr>preview := js ''<img src=\"'' @ result @ js ''\" alt=\"Preview\">''\<rparr>"

definition displayResults :: "analysis_result \<Rightarrow> uploader \<Rightarrow> uploader" where
  "displayResults r st =
     (let html = js ''<div class=\"result-card\">\<newline>        <h3>Plant: '' @ toStr (plant r)
                 @ js ''</h3>\<newline>        <p>Status: '' @ toStr (status r)
                 @ js ''</p>\<newline>        <p>Confidence: '' @ toStr (confidence r) @ js ''%</p>'';
          html = (if status r = JStr (js ''Diseased'') then
                    html @ js ''<p><b>Disease:</b> '' @ toStr (disease r)
                    @ js ''</p>\<newline>                 <p><b>Symptoms:</b> '' @ toStr (symptoms r)
                    @ js ''</p>\<newline>                 <p><b>Treatments:</b> '' @ toStr (treatments r)
                    @ js ''</p>\<newline>                 <p><b>Prevention:</b> '' @ toStr (prevention r)
                    @ js ''</p>''
                  else
                    html @ js ''<p><b>Care Tips:</b> '' @ toStr (care_tips r) @ js ''</p>'');
          html = html @ js ''</div>''
      in st\<lparr>results := html\<rparr>)"

text \<open>
  The click handler of the analyze button, up to its first await: it returns at once when
  no file is selected, and otherwise posts the file as the only part of a form.
\<close>

definition analyzeBtn_click :: "uploader \<Rightarrow> uploader" where
  "analyzeBtn_click st =
     (case selectedFile st of
        None \<Rightarrow> st
      | Some f \<Rightarrow>
          st\<lparr>upload_requests := upload_requests st @
               [\<lparr>upload_url = js ''/upload'', upload_method = js ''POST'',
                 upload_form = [(js ''file'', f)]\<rparr>]\<rparr>)"

text \<open>
  The rest of the handler, run when the request settles. The body's \<open>result\<close> property
  is \<open>None\<close> when it is absent or \<^verbatim>\<open>null\<close>: reading \<^verbatim>\<open>result.plant\<close> then
  throws before anything is rendered. \<open>Inl\<close> is the rejection of the handler's promise;
  the page is then as it was.
\<close>

definition analyzeBtn_resume ::
  "analysis_result option fetch_outcome \<Rightarrow> uploader \<Rightarrow> js_error + uploader" where
  "analyzeBtn_resume outcome st =
     (case outcome of
        NetworkError \<Rightarrow> Inl FetchError
      | Response code NotJson \<Rightarrow> Inl SyntaxError
      | Response code (Json None) \<Rightarrow> Inl TypeError
      | Response code (Json (Some r)) \<Rightarrow> Inr (displayResults r st))"

text \<open>
  The events the uploader script has a listener for, and the completions the browser
  delivers. \<open>ReaderLoad i\<close> is the load event of the \<open>i\<close>-th reader still reading,
  \<open>ReaderError i\<close> its failure, for which the script registers nothing. A click on a
  disabled button dispatches no event.
\<close>

datatype upload_event =
    FileSelectClick
  | FileInputChange "jsfile list"
  | DragOver
  | DragLeave
  | Drop "jsfile list"
  | ReaderLoad nat
  | ReaderError nat
  | AnalyzeClick
  | UploadSettled "analysis_result option fetch_outcome"

definition drop_nth :: "nat \<Rightarrow> 'a list \<Rightarrow> 'a list" where
  "drop_nth i xs = take i xs @ drop (Suc i) xs"

fun upload_step :: "upload_event \<Rightarrow> uploader \<Rightarrow> uploader" where
  "upload_step FileSelectClick st = st"
| "upload_step (FileInputChange files) st = handleFiles files st"
| "upload_step DragOver st = st\<lparr>dropArea_hover := True\<rparr>"
| "upload_step DragLeave st = st\<lparr>dropArea_hover := False\<rparr>"
| "upload_step (Drop files) st = handleFiles files (st\<lparr>dropArea_hover := False\<rparr>)"
| "upload_step (ReaderLoad i) st =
     (if i < length (reading st)
      then reader_onload (data_url (reading st ! i)) (st\<lparr>reading := drop_nth i (reading st)\<rparr>)
      else st)"
| "upload_step (ReaderError i) st =
     (if i < length (reading st) then st\<lparr>reading := drop_nth i (reading st)\<rparr> else st)"
| "upload_step AnalyzeClick st =
     (if analyzeBtn_disabled st then st else analyzeBtn_click st)"
| "upload_step (UploadSettled outcome) st =
     (case analyzeBtn_resume outcome st of
        Inl e \<Rightarrow> st\<lparr>upload_rejections := upload_rejections st @ [e]\<rparr>
      | Inr st' \<Rightarrow> st')"

fun upload_run :: "upload_event list \<Rightarrow> uploader \<Rightarrow> uploader" where
  "upload_run [] st = st"
| "upload_run (e # es) st = upload_run es (upload_step e st)"

text \<open>
  Reads complete in the order they were started when every load event is that of the
  oldest reader still reading, and no read fails.
\<close>

fun in_order :: "upload_event \<Rightarrow> bool" where
  "in_order (ReaderLoad i) = (i = 0)"
| "in_order (ReaderError i) = False"
| "in_order e = True"

text \<open>
  The preview follows the selection: while reads are pending, the selected file is the one
  read last; once none is pending, the preview shows the selected file, if there is one.
\<close>

definition preview_follows :: "uploader \<Rightarrow> bool" where
  "preview_follows st =
     (case reading st of
        [] \<Rightarrow> (case selectedFile st of
                 None \<Rightarrow> True
               | Some f \<Rightarrow> preview st = js ''<img src=\"'' @ data_url f @ js ''\" alt=\"Preview\">'')
      | f # fs \<Rightarrow> selectedFile st = Some (last (f # fs)))"

section \<open>The chat widget\<close>

text \<open>
  An element made by \<^verbatim>\<open>document.createElement\<close>: its class and its children. A
  quick-reply button also has the argument its \<open>onclick\<close> closure passes to
  \<open>sendMessage\<close>.
\<close>

record element =
  className :: jsstring
  childNodes :: "node list"

record button = element +
  onclick_arg :: jsstring

text \<open>The object given to \<^verbatim>\<open>JSON.stringify\<close> for the request body.\<close>

record chat_message =
  session_id :: "jsstring option"
  message :: jsstring

record chat_request =
  chat_url :: jsstring
  chat_method :: jsstring
  chat_headers :: "(jsstring \<times> jsstring) list"
  chat_json :: chat_message

text \<open>
  The parsed body of a chat response: \<open>reply\<close> is \<^verbatim>\<open>data.reply\<close>;
  \<open>quick_replies\<close> is \<open>None\<close> when \<^verbatim>\<open>data.quick_replies\<close> is absent or
  \<^verbatim>\<open>null\<close> (the script then takes the empty list), and otherwise the array of
  labels. A value of \<^verbatim>\<open>quick_replies\<close> that is not an array of strings is outside
  the model.
\<close>

record chat_data =
  reply :: jsval
  quick_replies :: "jsstring list option"

text \<open>
  The page as the chat script sees it: the children of the transcript and of the
  quick-reply region, the value of the input field, the constant \<open>sessionId\<close>, the
  browser's local storage, the requests sent so far, and the rejections of
  \<open>sendMessage\<close>'s promise, which nothing handles. The scroll position set by
  \<open>addMessage\<close> is layout and is left out.
\<close>

record chat =
  chatHistory :: "element list"
  chatInput :: jsstring
  quickRepliesDiv :: "button list"
  sessionId :: "jsstring option"
  localStorage :: "jsstring \<Rightarrow> jsstring option"
  chat_requests :: "chat_request list"
  chat_rejections :: "js_error list"

text \<open>
  Modelled from the spec: the markup of the page is not among the sources. The page
  before the script runs has an empty transcript, an empty quick-reply region and an
  empty input field.
\<close>

definition blank_page :: "(jsstring \<Rightarrow> jsstring option) \<Rightarrow> chat" where
  "blank_page storage =
     \<lparr>chatHistory = [], chatInput = [], quickRepliesDiv = [], sessionId = None,
      localStorage = storage, chat_requests = [], chat_rejections = []\<rparr>"

text \<open>
  The top level of the script: \<open>sessionId\<close> is bound to what
  \<^verbatim>\<open>localStorage.getItem\<close> returns (\<^verbatim>\<open>null\<close>, here \<open>None\<close>, for a missing key).
\<close>

definition script_load :: "chat \<Rightarrow> chat" where
  "script_load st = st\<lparr>sessionId := localStorage st (js ''crop_chat_session'')\<rparr>"

definition addMessage :: "jsstring \<Rightarrow> jsval \<Rightarrow> chat \<Rightarrow> chat" where
  "addMessage who text st =
     (let el = \<lparr>className = js ''msg '' @ (if who = js ''bot'' then js ''bot'' else js ''user''),
                childNodes = innerText_set text\<rparr>
      in st\<lparr>chatHistory := chatHistory st @ [el]\<rparr>)"

definition renderQuickReplies :: "jsstring list \<Rightarrow> chat \<Rightarrow> chat" where
  "renderQuickReplies list st =
     (let st = st\<lparr>quickRepliesDiv := []\<rparr> in
      if length list = 0 then st
      else foldl (\<lambda>s q. s\<lparr>quickRepliesDiv := quickRepliesDiv s @
                     [\<lparr>className = js ''quick-btn'', childNodes = innerText_set (JStr q),
                       onclick_arg = q\<rparr>]\<rparr>) st list)"

text \<open>\<open>sendMessage\<close> up to its first await.\<close>

definition sendMessage_start :: "jsstring \<Rightarrow> chat \<Rightarrow> chat" where
  "sendMessage_start text st =
     (let st = addMessage (js ''user'') (JStr text) st;
          st = st\<lparr>chatInput := []\<rparr>
      in st\<lparr>chat_requests := chat_requests st @
            [\<lparr>chat_url = js ''/api/chat'', chat_method = js ''POST'',
              chat_headers = [(js ''Content-Type'', js ''application/json'')],
              chat_json = \<lparr>session_id = sessionId st, message = text\<rparr>\<rparr>]\<rparr>)"

text \<open>
  The rest of \<open>sendMessage\<close>, run when the request settles. The parsed body is
  \<open>None\<close> when it is the JSON \<^verbatim>\<open>null\<close>: reading \<^verbatim>\<open>data.reply\<close> then throws.
  \<open>Inl\<close> is the rejection of the promise; the page is then as it was.
\<close>

definition sendMessage_resume ::
  "chat_data option fetch_outcome \<Rightarrow> chat \<Rightarrow> js_error + chat" where
  "sendMessage_resume outcome st =
     (case outcome of
        NetworkError \<Rightarrow> Inl FetchError
      | Response code NotJson \<Rightarrow> Inl SyntaxError
      | Response code (Json None) \<Rightarrow> Inl TypeError
      | Response code (Json (Some data)) \<Rightarrow>
          Inr (renderQuickReplies (case quick_replies data of None \<Rightarrow> [] | Some l \<Rightarrow> l)
                 (addMessage (js ''bot'') (reply data) st)))"

definition sendBtn_click :: "chat \<Rightarrow> chat" where
  "sendBtn_click st =
     (let t = trim (chatInput st) in
      if t = [] then st else sendMessage_start t st)"

text \<open>
  The keydown listener of the input field. The first component tells whether
  \<^verbatim>\<open>e.preventDefault()\<close> was called.
\<close>

definition chatInput_keydown :: "jsstring \<Rightarrow> chat \<Rightarrow> bool \<times> chat" where
  "chatInput_keydown key st =
     (if key = js ''Enter'' then (True, sendBtn_click st) else (False, st))"

definition welcome_text :: jsstring where
  "welcome_text = js ''Hello '' @ [0x2014] @
     js '' I can help with crop care, uploading, or disease symptoms. Try a quick suggestion.''"

definition window_load :: "chat \<Rightarrow> chat" where
  "window_load st =
     renderQuickReplies [js ''How to upload a photo?'', js ''Tomato care tips'']
       (addMessage (js ''bot'') (JStr welcome_text) st)"

text \<open>
  Modelled from the spec: the markup of the page is not among the sources. The chat input
  is a single-line text field (its Enter key would otherwise submit a form), and the
  browser removes every CR and LF from what is typed or pasted into such a field.
\<close>

definition strip_newlines :: "jsstring \<Rightarrow> jsstring" where
  "strip_newlines v = filter (\<lambda>c. c \<noteq> 0x0A \<and> c \<noteq> 0x0D) v"

text \<open>
  The events the chat script has a listener for, the user's editing of the input field
  (\<open>UserInput v\<close>: the user makes the field hold \<open>v\<close>, less its line breaks), the
  click on the \<open>i\<close>-th quick-reply button, and the settling of a chat request.
\<close>

datatype chat_event =
    WindowLoad
  | UserInput jsstring
  | SendClick
  | KeyDown jsstring
  | QuickReplyClick nat
  | ChatSettled "chat_data option fetch_outcome"

fun chat_step :: "chat_event \<Rightarrow> chat \<Rightarrow> chat" where
  "chat_step WindowLoad st = window_load st"
| "chat_step (UserInput v) st = st\<lparr>chatInput := strip_newlines v\<rparr>"
| "chat_step SendClick st = sendBtn_click st"
| "chat_step (KeyDown key) st = snd (chatInput_keydown key st)"
| "chat_step (QuickReplyClick i) st =
     (if i < length (quickRepliesDiv st)
      then sendMessage_start (onclick_arg (quickRepliesDiv st ! i)) st
      else st)"
| "chat_step (ChatSettled outcome) st =
     (case sendMessage_resume outcome st of
        Inl e \<Rightarrow> st\<lparr>chat_rejections := chat_rejections st @ [e]\<rparr>
      | Inr st' \<Rightarrow> st')"

fun chat_run :: "chat_event list \<Rightarrow> chat \<Rightarrow> chat" where
  "chat_run [] st = st"
| "chat_run (e # es) st = chat_run es (chat_step e st)"

section \<open>Example inputs\<close>

definition tomato_blight :: analysis_result where
  "tomato_blight =
     \<lparr>plant = JStr (js ''Tomato''), status = JStr (js ''Diseased''), confidence = JNum (js ''92.5''),
      disease = JStr (js ''Late blight''), symptoms = JStr (js ''Dark spots on leaves''),
      treatments = JStr (js ''Apply fungicide''), prevention = JStr (js ''Rotate crops''),
      care_tips = JUndefined\<rparr>"

definition tomato_healthy :: analysis_result where
  "tomato_healthy =
     \<lparr>plant = JStr (js ''Tomato''), status = JStr (js ''Healthy''), confidence = JNum (js ''88''),
      disease = JUndefined, symptoms = JUndefined, treatments = JUndefined,
      prevention = JUndefined, care_tips = JStr (js ''Water <b>regularly</b>'')\<rparr>"

text \<open>
  Modelled from the spec: the markup of the page is not among the sources. Before any
  interaction no file is selected, the analyze action is disabled, and the preview and
  results regions are empty.
\<close>

definition empty_uploader :: uploader where
  "empty_uploader =
     \<lparr>selectedFile = None, preview = [], analyzeBtn_disabled = True, dropArea_hover = False,
      reading = [], results = [], upload_requests = [], upload_rejections = []\<rparr>"

definition leaf_a :: jsfile where
  "leaf_a = \<lparr>file_name = js ''leaf-a.jpg'', data_url = js ''data:image/jpeg;base64,AAAA''\<rparr>"

definition leaf_b :: jsfile where
  "leaf_b = \<lparr>file_name = js ''leaf-b.jpg'', data_url = js ''data:image/jpeg;base64,BBBB''\<rparr>"

definition no_storage :: "jsstring \<Rightarrow> jsstring option" where
  "no_storage = (\<lambda>k. None)"

definition stored_session :: "jsstring \<Rightarrow> jsstring option" where
  "stored_session = (\<lambda>k. if k = js ''crop_chat_session'' then Some (js ''abc123'') else None)"

definition typed_hello :: chat where
  "typed_hello = (script_load (blank_page stored_session))\<lparr>chatInput := js ''  hello ''\<rparr>"

definition typed_blank :: chat where
  "typed_blank = (script_load (blank_page stored_session))\<lparr>chatInput := js ''   ''\<rparr>"

section \<open>Lemmas about the renderer\<close>

lemma sublist_hereI: "sublist xs (xs @ ys)"
  by (rule sublist_append_rightI)

lemma sublist_skipI: "sublist xs ys \<Longrightarrow> sublist xs (zs @ ys)"
  by (metis sublist_appendI sublist_order.order_trans sublist_append_leftI)

lemma displayResults_diseased:
  assumes "status r = JStr (js ''Diseased'')"
  shows "results (displayResults r st) =
     js ''<div class=\"result-card\">\<newline>        <h3>Plant: '' @ toStr (plant r)
     @ js ''</h3>\<newline>        <p>Status: '' @ toStr (status r)
     @ js ''</p>\<newline>        <p>Confidence: '' @ toStr (confidence r) @ js ''%</p>''
     @ js ''<p><b>Disease:</b> '' @ toStr (disease r)
     @ js ''</p>\<newline>                 <p><b>Symptoms:</b> '' @ toStr (symptoms r)
     @ js ''</p>\<newline>                 <p><b>Treatments:</b> '' @ toStr (treatments r)
     @ js ''</p>\<newline>                 <p><b>Prevention:</b> '' @ toStr (prevention r)
     @ js ''</p>'' @ js ''</div>''"
  using assms unfolding displayResults_def Let_def by simp

lemma displayResults_other:
  assumes "status r \<noteq> JStr (js ''Diseased'')"
  shows "results (displayResults r st) =
     js ''<div class=\"result-card\">\<newline>        <h3>Plant: '' @ toStr (plant r)
     @ js ''</h3>\<newline>        <p>Status: '' @ toStr (status r)
     @ js ''</p>\<newline>        <p>Confidence: '' @ toStr (confidence r) @ js ''%</p>''
     @ js ''<p><b>Care Tips:</b> '' @ toStr (care_tips r) @ js ''</p>'' @ js ''</div>''"
  using assms unfolding displayResults_def Let_def by simp

lemma plant_rendered: "sublist (toStr (plant r)) (results (displayResults r st))"
proof (cases "status r = JStr (js ''Diseased'')")
  case True
  show ?thesis unfolding displayResults_diseased[OF True]
    by (rule sublist_hereI | rule sublist_skipI)+
next
  case False
  show ?thesis unfolding displayResults_other[OF False]
    by (rule sublist_hereI | rule sublist_skipI)+
qed

lemma status_rendered: "sublist (toStr (status r)) (results (displayResults r st))"
proof (cases "status r = JStr (js ''Diseased'')")
  case True
  show ?thesis unfolding displayResults_diseased[OF True]
    by (rule sublist_hereI | rule sublist_skipI)+
next
  case False
  show ?thesis unfolding displayResults_other[OF False]
    by (rule sublist_hereI | rule sublist_skipI)+
qed

lemma confidence_rendered: "sublist (toStr (confidence r)) (results (displayResults r st))"
proof (cases "status r = JStr (js ''Diseased'')")
  case True
  show ?thesis unfolding displayResults_diseased[OF True]
    by (rule sublist_hereI | rule sublist_skipI)+
next
  case False
  show ?thesis unfolding displayResults_other[OF False]
    by (rule sublist_hereI | rule sublist_skipI)+
qed

lemma diseased_rendered:
  assumes d: "status r = JStr (js ''Diseased'')"
  shows "sublist (toStr (disease r)) (results (displayResults r st))"
    and "sublist (toStr (symptoms r)) (results (displayResults r st))"
    and "sublist (toStr (treatments r)) (results (displayResults r st))"
    and "sublist (toStr (prevention r)) (results (displayResults r st))"
  unfolding displayResults_diseased[OF d]
  by ((rule sublist_hereI | rule sublist_skipI)+)+

lemma care_tips_rendered:
  assumes "status r \<noteq> JStr (js ''Diseased'')"
  shows "sublist (toStr (care_tips r)) (results (displayResults r st))"
  unfolding displayResults_other[OF assms]
  by (rule sublist_hereI | rule sublist_skipI)+

lemma care_tips_not_read:
  assumes "status r = JStr (js ''Diseased'')"
  shows "displayResults (r\<lparr>care_tips := c\<rparr>) st = displayResults r st"
  using assms unfolding displayResults_def Let_def by simp

lemma disease_fields_not_read:
  assumes "status r \<noteq> JStr (js ''Diseased'')"
  shows "displayResults (r\<lparr>disease := d, symptoms := s, treatments := t, prevention := p\<rparr>) st
         = displayResults r st"
  using assms unfolding displayResults_def Let_def by simp

lemma displayResults_replaces:
  "results (displayResults r (st\<lparr>results := old\<rparr>)) = results (displayResults r st)"
  unfolding displayResults_def Let_def by simp

lemma displayResults_frame:
  "displayResults r st = st\<lparr>results := results (displayResults r st)\<rparr>"
  unfolding displayResults_def Let_def by simp

section \<open>Lemmas about the chat widget\<close>

lemma node_text_br: "node_text br = [0x0A]"
  by (simp add: br_def)

lemma text_node_text: "concat (map node_text (text_node t)) = t"
  by (simp add: text_node_def)

lemma text_fragment_text:
  "concat (map node_text (text_fragment t s)) = t @ line_breaks s"
  by (induction t s rule: text_fragment.induct)
     (auto simp: text_node_text node_text_br)

lemma text_node_only: "list_all text_or_br (text_node t)"
  by (simp add: text_node_def)

lemma text_fragment_only: "list_all text_or_br (text_fragment t s)"
  by (induction t s rule: text_fragment.induct)
     (auto simp: text_node_only br_def)

lemma text_fragment_plain_acc:
  "0x0D \<notin> set s \<Longrightarrow> 0x0A \<notin> set s \<Longrightarrow> text_fragment t s = text_node (t @ s)"
  by (induction t s rule: text_fragment.induct) auto

lemma text_fragment_plain:
  "s \<noteq> [] \<Longrightarrow> 0x0D \<notin> set s \<Longrightarrow> 0x0A \<notin> set s \<Longrightarrow> text_fragment [] s = [TextNode s]"
  by (simp add: text_fragment_plain_acc text_node_def)

lemma line_breaks_plain: "0x0D \<notin> set s \<Longrightarrow> line_breaks s = s"
  by (induction s rule: line_breaks.induct) auto

lemma strip_newlines_plain: "0x0D \<notin> set s \<Longrightarrow> 0x0A \<notin> set s \<Longrightarrow> strip_newlines s = s"
  by (induction s) (auto simp: strip_newlines_def)

lemma fragment_welcome: "text_fragment [] welcome_text = [TextNode welcome_text]"
  by (rule text_fragment_plain) (simp_all add: welcome_text_def js_def)

lemma fragment_upload:
  "text_fragment [] (js ''How to upload a photo?'') = [TextNode (js ''How to upload a photo?'')]"
  by (rule text_fragment_plain) (simp_all add: js_def)

lemma fragment_tomato:
  "text_fragment [] (js ''Tomato care tips'') = [TextNode (js ''Tomato care tips'')]"
  by (rule text_fragment_plain) (simp_all add: js_def)

lemma fragment_hi: "text_fragment [] (js ''hi'') = [TextNode (js ''hi'')]"
  by (rule text_fragment_plain) (simp_all add: js_def)

lemma strip_hi: "strip_newlines (js ''hi'') = js ''hi''"
  by (simp add: strip_newlines_def js_def)

lemma js_user_bot: "js ''user'' \<noteq> js ''bot''"
  by (simp add: js_def)

lemma msg_user: "js ''msg '' @ js ''user'' = js ''msg user''"
  by (simp add: js_def)

lemma msg_bot: "js ''msg '' @ js ''bot'' = js ''msg bot''"
  by (simp add: js_def)

lemma addMessage_user:
  "addMessage (js ''user'') t st =
     st\<lparr>chatHistory := chatHistory st @ [\<lparr>className = js ''msg user'', childNodes = innerText_set t\<rparr>]\<rparr>"
  by (simp add: addMessage_def js_user_bot msg_user)

lemma addMessage_bot:
  "addMessage (js ''bot'') t st =
     st\<lparr>chatHistory := chatHistory st @ [\<lparr>className = js ''msg bot'', childNodes = innerText_set t\<rparr>]\<rparr>"
  by (simp add: addMessage_def msg_bot)

lemma addMessage_history:
  "chatHistory (addMessage who t st) = chatHistory st @
     [\<lparr>className = js ''msg '' @ (if who = js ''bot'' then js ''bot'' else js ''user''),
       childNodes = innerText_set t\<rparr>]"
  by (simp add: addMessage_def)

lemma quick_loop:
  "foldl (\<lambda>s q. s\<lparr>quickRepliesDiv := quickRepliesDiv s @
        [\<lparr>className = js ''quick-btn'', childNodes = text_fragment [] q, onclick_arg = q\<rparr>]\<rparr>) st list
   = st\<lparr>quickRepliesDiv := quickRepliesDiv st @
        map (\<lambda>q. \<lparr>className = js ''quick-btn'', childNodes = text_fragment [] q, onclick_arg = q\<rparr>) list\<rparr>"
  by (induction list arbitrary: st) simp_all

lemma renderQuickReplies_eq:
  "renderQuickReplies list st =
     st\<lparr>quickRepliesDiv := map (\<lambda>q. \<lparr>className = js ''quick-btn'', childNodes = text_fragment [] q, onclick_arg = q\<rparr>) list\<rparr>"
  by (simp add: renderQuickReplies_def Let_def quick_loop)

lemma sendMessage_start_eq:
  "sendMessage_start text st =
     st\<lparr>chatHistory := chatHistory st @ [\<lparr>className = js ''msg user'', childNodes = text_fragment [] text\<rparr>],
        chatInput := [],
        chat_requests := chat_requests st @
          [\<lparr>chat_url = js ''/api/chat'', chat_method = js ''POST'',
            chat_headers = [(js ''Content-Type'', js ''application/json'')],
            chat_json = \<lparr>session_id = sessionId st, message = text\<rparr>\<rparr>]\<rparr>"
  by (simp add: sendMessage_start_def Let_def addMessage_user)

lemma sendMessage_resume_ok:
  "sendMessage_resume (Response code (Json (Some d))) st =
     Inr (st\<lparr>chatHistory := chatHistory st @ [\<lparr>className = js ''msg bot'', childNodes = innerText_set (reply d)\<rparr>],
             quickRepliesDiv := map (\<lambda>q. \<lparr>className = js ''quick-btn'', childNodes = text_fragment [] q, onclick_arg = q\<rparr>)
                (case quick_replies d of None \<Rightarrow> [] | Some l \<Rightarrow> l)\<rparr>)"
  by (simp add: sendMessage_resume_def renderQuickReplies_eq addMessage_bot)

lemma window_load_eq:
  "window_load st =
     st\<lparr>chatHistory := chatHistory st @ [\<lparr>className = js ''msg bot'', childNodes = [TextNode welcome_text]\<rparr>],
        quickRepliesDiv :=
          [\<lparr>className = js ''quick-btn'', childNodes = [TextNode (js ''How to upload a photo?'')],
            onclick_arg = js ''How to upload a photo?''\<rparr>,
           \<lparr>className = js ''quick-btn'', childNodes = [TextNode (js ''Tomato care tips'')],
            onclick_arg = js ''Tomato care tips''\<rparr>]\<rparr>"
  by (simp add: window_load_def renderQuickReplies_eq addMessage_bot fragment_welcome
      fragment_upload fragment_tomato)

lemma sendBtn_click_history: "prefix (chatHistory st) (chatHistory (sendBtn_click st))"
  by (simp add: sendBtn_click_def Let_def sendMessage_start_eq)

lemma chat_step_history: "prefix (chatHistory st) (chatHistory (chat_step e st))"
proof (cases e)
  case (ChatSettled outcome)
  then show ?thesis
    by (auto simp: sendMessage_resume_def renderQuickReplies_eq addMessage_bot
        split: fetch_outcome.splits body.splits option.splits)
qed (simp_all add: window_load_eq sendBtn_click_history chatInput_keydown_def sendMessage_start_eq)

lemma chat_run_history: "prefix (chatHistory st) (chatHistory (chat_run es st))"
proof (induction es arbitrary: st)
  case Nil
  show ?case by simp
next
  case (Cons e es)
  have "prefix (chatHistory st) (chatHistory (chat_step e st))" by (rule chat_step_history)
  also have "prefix (chatHistory (chat_step e st)) (chatHistory (chat_run es (chat_step e st)))"
    by (rule Cons.IH)
  finally show ?case by simp
qed

lemma dropWhile_all_ws: "(dropWhile P xs = []) = (\<forall>x\<in>set xs. P x)"
  by (induction xs) auto

lemma trim_empty_iff: "(trim v = []) = (\<forall>c\<in>set v. is_ws c)"
proof
  assume "trim v = []"
  then have a: "\<forall>c\<in>set (dropWhile is_ws v). is_ws c"
    by (simp add: trim_def dropWhile_all_ws)
  have "dropWhile is_ws v = []"
  proof (rule ccontr)
    assume n: "dropWhile is_ws v \<noteq> []"
    then have "\<not> is_ws (hd (dropWhile is_ws v))" by (rule hd_dropWhile)
    moreover from n have "hd (dropWhile is_ws v) \<in> set (dropWhile is_ws v)" by simp
    ultimately show False using a by blast
  qed
  then show "\<forall>c\<in>set v. is_ws c" by (simp add: dropWhile_all_ws)
next
  assume "\<forall>c\<in>set v. is_ws c"
  then have d: "dropWhile is_ws v = []" by (simp add: dropWhile_all_ws)
  show "trim v = []" unfolding trim_def d by simp
qed

lemma trim_fixed:
  assumes "q \<noteq> []" "\<not> is_ws (hd q)" "\<not> is_ws (last q)"
  shows "trim q = q"
proof -
  from assms(1,2) have a: "dropWhile is_ws q = q" by (cases q) simp_all
  from assms(1,3) have "dropWhile is_ws (rev q) = rev q"
    by (cases "rev q") (simp_all add: last_rev hd_rev[symmetric])
  with a show ?thesis by (simp add: trim_def)
qed

lemma sendBtn_click_typed:
  assumes "q \<noteq> []" "\<not> is_ws (hd q)" "\<not> is_ws (last q)"
  shows "sendBtn_click (st\<lparr>chatInput := q\<rparr>) = sendMessage_start q st"
  using assms trim_fixed[OF assms]
  by (simp add: sendBtn_click_def Let_def sendMessage_start_eq)

lemma tomato_trimmed:
  "js ''Tomato care tips'' \<noteq> []" "\<not> is_ws (hd (js ''Tomato care tips''))"
  "\<not> is_ws (last (js ''Tomato care tips''))"
  "0x0D \<notin> set (js ''Tomato care tips'')" "0x0A \<notin> set (js ''Tomato care tips'')"
  by (simp_all add: js_def is_ws_def)

lemma sendMessage_resume_status:
  "sendMessage_resume (Response code b) st = sendMessage_resume (Response code' b) st"
  by (simp add: sendMessage_resume_def)

lemma chat_step_session:
  "sessionId (chat_step e st) = sessionId st \<and> localStorage (chat_step e st) = localStorage st"
proof (cases e)
  case (ChatSettled outcome)
  then show ?thesis
    by (auto simp: sendMessage_resume_def renderQuickReplies_eq addMessage_bot
        split: fetch_outcome.splits body.splits option.splits)
qed (simp_all add: window_load_eq sendBtn_click_def Let_def chatInput_keydown_def sendMessage_start_eq)

lemma chat_step_requests:
  "\<exists>new. chat_requests (chat_step e st) = chat_requests st @ new
      \<and> (\<forall>rq\<in>set new. session_id (chat_json rq) = sessionId st)"
proof (cases e)
  case (ChatSettled outcome)
  then show ?thesis
    by (auto simp: sendMessage_resume_def renderQuickReplies_eq addMessage_bot
        split: fetch_outcome.splits body.splits option.splits)
qed (simp_all add: window_load_eq sendBtn_click_def Let_def chatInput_keydown_def sendMessage_start_eq)

lemma chat_run_session:
  "sessionId (chat_run es st) = sessionId st \<and> localStorage (chat_run es st) = localStorage st"
  by (induction es arbitrary: st) (simp_all add: chat_step_session)

lemma chat_run_requests:
  "\<exists>new. chat_requests (chat_run es st) = chat_requests st @ new
      \<and> (\<forall>rq\<in>set new. session_id (chat_json rq) = sessionId st)"
proof (induction es arbitrary: st)
  case Nil
  show ?case by simp
next
  case (Cons e es)
  obtain n1 where n1: "chat_requests (chat_step e st) = chat_requests st @ n1"
    "\<forall>rq\<in>set n1. session_id (chat_json rq) = sessionId st"
    using chat_step_requests[of e st] by blast
  obtain n2 where n2: "chat_requests (chat_run es (chat_step e st)) = chat_requests (chat_step e st) @ n2"
    "\<forall>rq\<in>set n2. session_id (chat_json rq) = sessionId (chat_step e st)"
    using Cons.IH[of "chat_step e st"] by blast
  have "chat_requests (chat_run (e # es) st) = chat_requests st @ (n1 @ n2)"
    using n1(1) n2(1) by simp
  moreover have "\<forall>rq\<in>set (n1 @ n2). session_id (chat_json rq) = sessionId st"
    using n1(2) n2(2) chat_step_session[of e st] by auto
  ultimately show ?case by blast
qed

lemma chat_step_storage_unread:
  "chat_step e (st\<lparr>localStorage := s\<rparr>) = (chat_step e st)\<lparr>localStorage := s\<rparr>"
proof (cases e)
  case (ChatSettled outcome)
  then show ?thesis
    by (auto simp: sendMessage_resume_def renderQuickReplies_eq addMessage_bot
        split: fetch_outcome.splits body.splits option.splits)
qed (simp_all add: window_load_eq sendBtn_click_def Let_def chatInput_keydown_def sendMessage_start_eq)

lemma chat_run_storage_unread:
  "chat_run es (st\<lparr>localStorage := s\<rparr>) = (chat_run es st)\<lparr>localStorage := s\<rparr>"
  by (induction es arbitrary: st) (simp_all add: chat_step_storage_unread)

section \<open>Lemmas about the uploader\<close>

lemma analyzeBtn_resume_status:
  "analyzeBtn_resume (Response code b) st = analyzeBtn_resume (Response code' b) st"
  by (simp add: analyzeBtn_resume_def)

lemma preview_follows_iff:
  "preview_follows st =
     ((reading st = [] \<longrightarrow>
         (\<forall>f. selectedFile st = Some f \<longrightarrow>
              preview st = js ''<img src=\"'' @ data_url f @ js ''\" alt=\"Preview\">''))
      \<and> (reading st \<noteq> [] \<longrightarrow> selectedFile st = Some (last (reading st))))"
  by (auto simp: preview_follows_def split: list.splits option.splits)

lemma handleFiles_eq:
  "files \<noteq> [] \<Longrightarrow> handleFiles files st =
     st\<lparr>selectedFile := Some (hd files), reading := reading st @ [hd files],
        analyzeBtn_disabled := False\<rparr>"
  by (simp add: handleFiles_def Let_def)

lemma handleFiles_none: "handleFiles [] st = st"
  by (simp add: handleFiles_def)

lemma handleFiles_follows: "preview_follows st \<Longrightarrow> preview_follows (handleFiles files st)"
proof (cases files)
  case Nil
  assume "preview_follows st"
  with Nil show ?thesis by (simp add: handleFiles_none)
next
  case (Cons f fs)
  then have "files \<noteq> []" by simp
  then show ?thesis
    by (cases "reading st") (simp_all add: handleFiles_eq preview_follows_iff)
qed

lemma drop_nth_0: "drop_nth 0 (x # xs) = xs"
  by (simp add: drop_nth_def)

lemma upload_step_follows:
  assumes "preview_follows st" "in_order e"
  shows "preview_follows (upload_step e st)"
proof (cases e)
  case (FileInputChange files)
  with assms show ?thesis by (simp add: handleFiles_follows)
next
  case (Drop files)
  have "preview_follows (st\<lparr>dropArea_hover := False\<rparr>)"
    using assms(1) by (simp add: preview_follows_iff)
  with Drop show ?thesis by (simp add: handleFiles_follows)
next
  case (ReaderLoad i)
  with assms(2) have i: "i = 0" by simp
  show ?thesis
  proof (cases "reading st")
    case Nil
    with ReaderLoad assms(1) show ?thesis by simp
  next
    case (Cons f fs)
    with ReaderLoad i assms(1) show ?thesis
      by (cases fs) (simp_all add: preview_follows_iff reader_onload_def drop_nth_0)
  qed
next
  case (ReaderError i)
  with assms(2) show ?thesis by simp
next
  case AnalyzeClick
  with assms(1) show ?thesis
    by (auto simp: preview_follows_iff analyzeBtn_click_def split: option.splits)
next
  case (UploadSettled outcome)
  with assms(1) show ?thesis
    by (auto simp: preview_follows_iff analyzeBtn_resume_def displayResults_def Let_def
        split: fetch_outcome.splits body.splits option.splits)
qed (use assms(1) in \<open>simp_all add: preview_follows_iff\<close>)

lemma upload_run_follows:
  "preview_follows st \<Longrightarrow> list_all in_order es \<Longrightarrow> preview_follows (upload_run es st)"
  by (induction es arbitrary: st) (simp_all add: upload_step_follows)

lemma two_files_in_order:
  "upload_run [Drop [leaf_a], FileInputChange [leaf_b], ReaderLoad 0, ReaderLoad 0] empty_uploader
   = empty_uploader\<lparr>selectedFile := Some leaf_b, analyzeBtn_disabled := False,
       preview := js ''<img src=\"'' @ data_url leaf_b @ js ''\" alt=\"Preview\">''\<rparr>"
  by (simp add: empty_uploader_def handleFiles_def Let_def reader_onload_def drop_nth_def)

section \<open>The claims\<close>

subsection \<open>C1\<close>

text \<open>
  Claim C1. \<open>displayResults\<close> branches only on \<open>status\<close>. When the status is the string
  \<^verbatim>\<open>Diseased\<close>, the text assigned to the results region is the card's head, the four
  disease paragraphs and the closing tag, with no care-tips paragraph: it contains the
  disease, symptoms, treatments and prevention texts, and the care tips are not read
  (changing them changes nothing). For every other status it is the head, the care-tips
  paragraph and the closing tag: it contains the care-tips text, and the four disease
  fields are not read. In both cases the plant, status and confidence texts are
  contained. The call replaces the whole content of the region (the new content does not
  depend on the old one) and changes nothing else on the page.
\<close>

theorem displayResults_branches_on_status:
  "(status r = JStr (js ''Diseased'') \<longrightarrow>
      results (displayResults r st) =
        js ''<div class=\"result-card\">\<newline>        <h3>Plant: '' @ toStr (plant r)
        @ js ''</h3>\<newline>        <p>Status: '' @ toStr (status r)
        @ js ''</p>\<newline>        <p>Confidence: '' @ toStr (confidence r) @ js ''%</p>''
        @ js ''<p><b>Disease:</b> '' @ toStr (disease r)
        @ js ''</p>\<newline>                 <p><b>Symptoms:</b> '' @ toStr (symptoms r)
        @ js ''</p>\<newline>                 <p><b>Treatments:</b> '' @ toStr (treatments r)
        @ js ''</p>\<newline>                 <p><b>Prevention:</b> '' @ toStr (prevention r)
        @ js ''</p>'' @ js ''</div>'' \<and>
      sublist (toStr (disease r)) (results (displayResults r st)) \<and>
      sublist (toStr (symptoms r)) (results (displayResults r st)) \<and>
      sublist (toStr (treatments r)) (results (displayResults r st)) \<and>
      sublist (toStr (prevention r)) (results (displayResults r st)) \<and>
      (\<forall>c. displayResults (r\<lparr>care_tips := c\<rparr>) st = displayResults r st))
   \<and> (status r \<noteq> JStr (js ''Diseased'') \<longrightarrow>
      results (displayResults r st) =
        js ''<div class=\"result-card\">\<newline>        <h3>Plant: '' @ toStr (plant r)
        @ js ''</h3>\<newline>        <p>Status: '' @ toStr (status r)
        @ js ''</p>\<newline>        <p>Confidence: '' @ toStr (confidence r) @ js ''%</p>''
        @ js ''<p><b>Care Tips:</b> '' @ toStr (care_tips r) @ js ''</p>'' @ js ''</div>'' \<and>
      sublist (toStr (care_tips r)) (results (displayResults r st)) \<and>
      (\<forall>d s t p. displayResults (r\<lparr>disease := d, symptoms := s, treatments := t, prevention := p\<rparr>) st
                 = displayResults r st))
   \<and> sublist (toStr (plant r)) (results (displayResults r st))
   \<and> sublist (toStr (status r)) (results (displayResults r st))
   \<and> sublist (toStr (confidence r)) (results (displayResults r st))
   \<and> (\<forall>old. results (displayResults r (st\<lparr>results := old\<rparr>)) = results (displayResults r st))
   \<and> displayResults r st = st\<lparr>results := results (displayResults r st)\<rparr>"
proof (intro conjI impI allI)
  assume d: "status r = JStr (js ''Diseased'')"
  show "results (displayResults r st) =
        js ''<div class=\"result-card\">\<newline>        <h3>Plant: '' @ toStr (plant r)
        @ js ''</h3>\<newline>        <p>Status: '' @ toStr (status r)
        @ js ''</p>\<newline>        <p>Confidence: '' @ toStr (confidence r) @ js ''%</p>''
        @ js ''<p><b>Disease:</b> '' @ toStr (disease r)
        @ js ''</p>\<newline>                 <p><b>Symptoms:</b> '' @ toStr (symptoms r)
        @ js ''</p>\<newline>                 <p><b>Treatments:</b> '' @ toStr (treatments r)
        @ js ''</p>\<newline>                 <p><b>Prevention:</b> '' @ toStr (prevention r)
        @ js ''</p>'' @ js ''</div>''"
    by (rule displayResults_diseased[OF d])
  show "sublist (toStr (disease r)) (results (displayResults r st))"
    by (rule diseased_rendered(1)[OF d])
  show "sublist (toStr (symptoms r)) (results (displayResults r st))"
    by (rule diseased_rendered(2)[OF d])
  show "sublist (toStr (treatments r)) (results (displayResults r st))"
    by (rule diseased_rendered(3)[OF d])
  show "sublist (toStr (prevention r)) (results (displayResults r st))"
    by (rule diseased_rendered(4)[OF d])
  show "displayResults (r\<lparr>care_tips := c\<rparr>) st = displayResults r st" for c
    by (rule care_tips_not_read[OF d])
next
  assume h: "status r \<noteq> JStr (js ''Diseased'')"
  show "results (displayResults r st) =
        js ''<div class=\"result-card\">\<newline>        <h3>Plant: '' @ toStr (plant r)
        @ js ''</h3>\<newline>        <p>Status: '' @ toStr (status r)
        @ js ''</p>\<newline>        <p>Confidence: '' @ toStr (confidence r) @ js ''%</p>''
        @ js ''<p><b>Care Tips:</b> '' @ toStr (care_tips r) @ js ''</p>'' @ js ''</div>''"
    by (rule displayResults_other[OF h])
  show "sublist (toStr (care_tips r)) (results (displayResults r st))"
    by (rule care_tips_rendered[OF h])
  show "displayResults (r\<lparr>disease := d, symptoms := s, treatments := t, prevention := p\<rparr>) st
                 = displayResults r st" for d s t p
    by (rule disease_fields_not_read[OF h])
next
  show "sublist (toStr (plant r)) (results (displayResults r st))" by (rule plant_rendered)
  show "sublist (toStr (status r)) (results (displayResults r st))" by (rule status_rendered)
  show "sublist (toStr (confidence r)) (results (displayResults r st))" by (rule confidence_rendered)
  show "results (displayResults r (st\<lparr>results := old\<rparr>)) = results (displayResults r st)" for old
    by (rule displayResults_replaces)
  show "displayResults r st = st\<lparr>results := results (displayResults r st)\<rparr>"
    by (rule displayResults_frame)
qed

text \<open>The theorem of C1 at a diseased and at a healthy result.\<close>

theorem displayResults_branches_on_status_witness:
  "sublist (js ''Late blight'') (results (displayResults tomato_blight empty_uploader))
   \<and> sublist (js ''Rotate crops'') (results (displayResults tomato_blight empty_uploader))
   \<and> displayResults (tomato_blight\<lparr>care_tips := JStr (js ''Water'')\<rparr>) empty_uploader
       = displayResults tomato_blight empty_uploader
   \<and> sublist (js ''Water <b>regularly</b>'') (results (displayResults tomato_healthy empty_uploader))
   \<and> sublist (js ''Healthy'') (results (displayResults tomato_healthy empty_uploader))"
proof -
  have d: "status tomato_blight = JStr (js ''Diseased'')"
    by (simp add: tomato_blight_def)
  have h: "status tomato_healthy \<noteq> JStr (js ''Diseased'')"
    by (simp add: tomato_healthy_def js_def)
  have f: "toStr (disease tomato_blight) = js ''Late blight''"
    "toStr (prevention tomato_blight) = js ''Rotate crops''"
    "toStr (care_tips tomato_healthy) = js ''Water <b>regularly</b>''"
    "toStr (status tomato_healthy) = js ''Healthy''"
    by (simp_all add: tomato_blight_def tomato_healthy_def)
  from displayResults_branches_on_status[of tomato_blight empty_uploader]
    displayResults_branches_on_status[of tomato_healthy empty_uploader] d h
  show ?thesis unfolding f by blast
qed

subsection \<open>C2\<close>

text \<open>
  Claim C2. For every message text, \<open>sendMessage\<close> first appends exactly one user entry
  with that text (set through \<^verbatim>\<open>innerText\<close>), clears the input field and posts
  \<open>{session_id, message}\<close> as JSON to \<^verbatim>\<open>/api/chat\<close>; all of this before any
  response, and appending the entry sends nothing. When the response arrives, in whatever state the page then is, it appends
  exactly one bot entry with the reply string and replaces the quick replies by the
  server's list (none for an empty or absent list). Every event, and every sequence of
  events, leaves the old transcript as a prefix of the new one: entries are only appended,
  never reordered.
\<close>

theorem sendMessage_sequence:
  "sendMessage_start text st =
     st\<lparr>chatHistory := chatHistory st @ [\<lparr>className = js ''msg user'', childNodes = text_fragment [] text\<rparr>],
        chatInput := [],
        chat_requests := chat_requests st @
          [\<lparr>chat_url = js ''/api/chat'', chat_method = js ''POST'',
            chat_headers = [(js ''Content-Type'', js ''application/json'')],
            chat_json = \<lparr>session_id = sessionId st, message = text\<rparr>\<rparr>]\<rparr>
   \<and> chat_requests (addMessage (js ''user'') (JStr text) st) = chat_requests st
   \<and> sendMessage_resume (Response code (Json (Some \<lparr>reply = JStr r, quick_replies = qs\<rparr>))) st' =
       Inr (st'\<lparr>chatHistory := chatHistory st' @ [\<lparr>className = js ''msg bot'', childNodes = text_fragment [] r\<rparr>],
               quickRepliesDiv :=
                 map (\<lambda>q. \<lparr>className = js ''quick-btn'', childNodes = text_fragment [] q, onclick_arg = q\<rparr>)
                   (case qs of None \<Rightarrow> [] | Some l \<Rightarrow> l)\<rparr>)
   \<and> chatHistory (chat_step (ChatSettled (Response code (Json (Some \<lparr>reply = JStr r, quick_replies = qs\<rparr>))))
        (sendMessage_start text st)) =
       chatHistory st @ [\<lparr>className = js ''msg user'', childNodes = text_fragment [] text\<rparr>,
                         \<lparr>className = js ''msg bot'', childNodes = text_fragment [] r\<rparr>]
   \<and> quickRepliesDiv (chat_step (ChatSettled (Response code (Json (Some \<lparr>reply = JStr r, quick_replies = Some []\<rparr>)))) st') = []
   \<and> prefix (chatHistory st) (chatHistory (chat_step e st))
   \<and> prefix (chatHistory st) (chatHistory (chat_run es st))"
proof -
  have a: "chat_requests (addMessage (js ''user'') (JStr text) st) = chat_requests st"
    by (simp add: addMessage_def)
  have b: "sendMessage_resume (Response code (Json (Some \<lparr>reply = JStr r, quick_replies = qs\<rparr>))) st' =
       Inr (st'\<lparr>chatHistory := chatHistory st' @ [\<lparr>className = js ''msg bot'', childNodes = text_fragment [] r\<rparr>],
               quickRepliesDiv :=
                 map (\<lambda>q. \<lparr>className = js ''quick-btn'', childNodes = text_fragment [] q, onclick_arg = q\<rparr>)
                   (case qs of None \<Rightarrow> [] | Some l \<Rightarrow> l)\<rparr>)"
    by (simp add: sendMessage_resume_ok)
  have c: "chatHistory (chat_step (ChatSettled (Response code (Json (Some \<lparr>reply = JStr r, quick_replies = qs\<rparr>))))
        (sendMessage_start text st)) =
       chatHistory st @ [\<lparr>className = js ''msg user'', childNodes = text_fragment [] text\<rparr>,
                         \<lparr>className = js ''msg bot'', childNodes = text_fragment [] r\<rparr>]"
    by (simp add: sendMessage_resume_ok sendMessage_start_eq)
  have d: "quickRepliesDiv (chat_step (ChatSettled (Response code (Json (Some \<lparr>reply = JStr r, quick_replies = Some []\<rparr>)))) st') = []"
    by (simp add: sendMessage_resume_ok)
  from sendMessage_start_eq[of _ st] a b c d chat_step_history[of st e] chat_run_history[of st es]
  show ?thesis by (intro conjI)
qed

text \<open>The theorem of C2 for the message \<^verbatim>\<open>How to upload a photo?\<close>.\<close>

theorem sendMessage_sequence_witness:
  "chatHistory (chat_step (ChatSettled (Response 200 (Json (Some
       \<lparr>reply = JStr (js ''Use the Upload page.''), quick_replies = Some [js ''Tomato care tips'']\<rparr>))))
       (sendMessage_start (js ''How to upload a photo?'') (blank_page no_storage)))
   = [\<lparr>className = js ''msg user'', childNodes = [TextNode (js ''How to upload a photo?'')]\<rparr>,
      \<lparr>className = js ''msg bot'', childNodes = [TextNode (js ''Use the Upload page.'')]\<rparr>]"
proof -
  have u: "text_fragment [] (js ''Use the Upload page.'') = [TextNode (js ''Use the Upload page.'')]"
    by (rule text_fragment_plain) (simp_all add: js_def)
  from sendMessage_sequence[of "js ''How to upload a photo?''" "blank_page no_storage" 200
      "js ''Use the Upload page.''" "Some [js ''Tomato care tips'']"]
  have "chatHistory (chat_step (ChatSettled (Response 200 (Json (Some
       \<lparr>reply = JStr (js ''Use the Upload page.''), quick_replies = Some [js ''Tomato care tips'']\<rparr>))))
       (sendMessage_start (js ''How to upload a photo?'') (blank_page no_storage)))
   = chatHistory (blank_page no_storage) @
     [\<lparr>className = js ''msg user'', childNodes = text_fragment [] (js ''How to upload a photo?'')\<rparr>,
      \<lparr>className = js ''msg bot'', childNodes = text_fragment [] (js ''Use the Upload page.'')\<rparr>]"
    by blast
  then show ?thesis unfolding fragment_upload u by (simp add: blank_page_def)
qed

subsection \<open>C3\<close>

text \<open>
  Claim C3, as amended. For every quick-reply label that is not empty, has no white
  space at its start or end and holds no line break (no CR and no LF), in particular
  \<^verbatim>\<open>Tomato care tips\<close>, the button rendered for it shows the label, and clicking it
  leaves the page in exactly the state that typing the label into the input field and
  clicking the send button leaves: both call \<open>sendMessage\<close> with the label.
\<close>

theorem quick_reply_same_as_typing:
  assumes "i < length list" and "q = list ! i"
    and "q \<noteq> []" and "\<not> is_ws (hd q)" and "\<not> is_ws (last q)"
    and "0x0D \<notin> set q" and "0x0A \<notin> set q"
  shows "childNodes (quickRepliesDiv (renderQuickReplies list st) ! i) = [TextNode q]
    \<and> chat_step (QuickReplyClick i) (renderQuickReplies list st)
        = sendMessage_start q (renderQuickReplies list st)
    \<and> chat_step SendClick (chat_step (UserInput q) (renderQuickReplies list st))
        = sendMessage_start q (renderQuickReplies list st)
    \<and> chat_step (QuickReplyClick i) (renderQuickReplies list st)
        = chat_step SendClick (chat_step (UserInput q) (renderQuickReplies list st))"
proof -
  let ?st = "renderQuickReplies list st"
  have a: "childNodes (quickRepliesDiv ?st ! i) = [TextNode q]"
    using assms(1,2) text_fragment_plain[OF assms(3,6,7)] by (simp add: renderQuickReplies_eq)
  have b: "chat_step (QuickReplyClick i) ?st = sendMessage_start q ?st"
    using assms(1,2) by (simp add: renderQuickReplies_eq)
  have c: "chat_step SendClick (chat_step (UserInput q) ?st) = sendMessage_start q ?st"
    using sendBtn_click_typed[OF assms(3,4,5), of ?st] strip_newlines_plain[OF assms(6,7)]
    by simp
  from a b c show ?thesis by simp
qed

text \<open>The theorem of C3 at the second button of the welcome state.\<close>

theorem quick_reply_same_as_typing_witness:
  "chat_step (QuickReplyClick 1) (window_load (blank_page no_storage))
   = chat_step SendClick (chat_step (UserInput (js ''Tomato care tips'')) (window_load (blank_page no_storage)))"
proof -
  have l: "(1::nat) < length [js ''How to upload a photo?'', js ''Tomato care tips'']" by simp
  have q: "js ''Tomato care tips'' = [js ''How to upload a photo?'', js ''Tomato care tips''] ! 1"
    by simp
  from quick_reply_same_as_typing[OF l q tomato_trimmed,
      of "addMessage (js ''bot'') (JStr welcome_text) (blank_page no_storage)"]
  show ?thesis by (simp add: window_load_def)
qed

text \<open>
  Claim C3 as stated fails for other labels: the send button trims what was typed, and
  sends nothing when that leaves nothing; the quick-reply button sends its label as it is.
\<close>

theorem quick_reply_untrimmed_differs:
  "chat_step (QuickReplyClick 0) (renderQuickReplies [js ''Tomato care tips ''] (blank_page no_storage))
   \<noteq> chat_step SendClick (chat_step (UserInput (js ''Tomato care tips ''))
        (renderQuickReplies [js ''Tomato care tips ''] (blank_page no_storage)))
   \<and> chat_requests (chat_step (QuickReplyClick 0) (renderQuickReplies [js '' ''] (blank_page no_storage)))
       = [\<lparr>chat_url = js ''/api/chat'', chat_method = js ''POST'',
           chat_headers = [(js ''Content-Type'', js ''application/json'')],
           chat_json = \<lparr>session_id = None, message = js '' ''\<rparr>\<rparr>]
   \<and> chat_requests (chat_step SendClick (chat_step (UserInput (js '' ''))
        (renderQuickReplies [js '' ''] (blank_page no_storage)))) = []"
proof -
  have s: "strip_newlines (js ''Tomato care tips '') = js ''Tomato care tips ''"
    "strip_newlines (js '' '') = js '' ''"
    by (simp_all add: strip_newlines_def js_def)
  have t: "trim (js ''Tomato care tips '') = js ''Tomato care tips''"
    by (simp add: trim_def js_def is_ws_def)
  have n: "js ''Tomato care tips'' \<noteq> js ''Tomato care tips ''"
    by (simp add: js_def)
  have f: "text_fragment [] (js ''Tomato care tips'') \<noteq> text_fragment [] (js ''Tomato care tips '')"
    by (simp add: js_def text_node_def)
  have e: "trim (js '' '') = []"
    by (simp add: trim_def js_def is_ws_def)
  have a: "chat_requests (chat_step (QuickReplyClick 0) (renderQuickReplies [js ''Tomato care tips ''] (blank_page no_storage)))
   \<noteq> chat_requests (chat_step SendClick (chat_step (UserInput (js ''Tomato care tips ''))
        (renderQuickReplies [js ''Tomato care tips ''] (blank_page no_storage))))"
    using n by (simp add: renderQuickReplies_eq sendMessage_start_eq sendBtn_click_def Let_def t s
        blank_page_def)
  then have a': "chat_step (QuickReplyClick 0) (renderQuickReplies [js ''Tomato care tips ''] (blank_page no_storage))
   \<noteq> chat_step SendClick (chat_step (UserInput (js ''Tomato care tips ''))
        (renderQuickReplies [js ''Tomato care tips ''] (blank_page no_storage)))"
    by metis
  have b: "chat_requests (chat_step (QuickReplyClick 0) (renderQuickReplies [js '' ''] (blank_page no_storage)))
       = [\<lparr>chat_url = js ''/api/chat'', chat_method = js ''POST'',
           chat_headers = [(js ''Content-Type'', js ''application/json'')],
           chat_json = \<lparr>session_id = None, message = js '' ''\<rparr>\<rparr>]"
    by (simp add: renderQuickReplies_eq sendMessage_start_eq blank_page_def)
  have c: "chat_requests (chat_step SendClick (chat_step (UserInput (js '' ''))
        (renderQuickReplies [js '' ''] (blank_page no_storage)))) = []"
    by (simp add: renderQuickReplies_eq sendBtn_click_def Let_def e s blank_page_def)
  from a' b c show ?thesis by (intro conjI)
qed

subsection \<open>C4\<close>

text \<open>
  Claim C4, as amended. Every selection of at least one file, by the picker or by a drop,
  makes the first file of the list the selected file, enables the analyze action and
  starts a read of that file; the preview is not changed yet. When a read completes, the
  preview becomes an image whose source is the data URL of the file that was read. None of
  these steps sends a request. If the reads complete in the order they were started and
  none fails, then whenever no read is pending the preview shows exactly the file selected
  last.
\<close>

theorem preview_latest_when_reads_in_order:
  "(files \<noteq> [] \<longrightarrow>
      selectedFile (upload_step (FileInputChange files) st) = Some (hd files)
    \<and> \<not> analyzeBtn_disabled (upload_step (FileInputChange files) st)
    \<and> reading (upload_step (FileInputChange files) st) = reading st @ [hd files]
    \<and> preview (upload_step (FileInputChange files) st) = preview st
    \<and> selectedFile (upload_step (Drop files) st) = Some (hd files)
    \<and> \<not> analyzeBtn_disabled (upload_step (Drop files) st)
    \<and> reading (upload_step (Drop files) st) = reading st @ [hd files]
    \<and> preview (upload_step (Drop files) st) = preview st)
   \<and> (i < length (reading st) \<longrightarrow>
      preview (upload_step (ReaderLoad i) st)
        = js ''<img src=\"'' @ data_url (reading st ! i) @ js ''\" alt=\"Preview\">''
    \<and> selectedFile (upload_step (ReaderLoad i) st) = selectedFile st)
   \<and> upload_requests (upload_step (FileInputChange files) st) = upload_requests st
   \<and> upload_requests (upload_step (Drop files) st) = upload_requests st
   \<and> upload_requests (upload_step (ReaderLoad i) st) = upload_requests st
   \<and> (preview_follows st \<and> list_all in_order es \<and> reading (upload_run es st) = []
        \<and> selectedFile (upload_run es st) = Some f \<longrightarrow>
      preview (upload_run es st) = js ''<img src=\"'' @ data_url f @ js ''\" alt=\"Preview\">'')"
proof -
  have a: "files \<noteq> [] \<longrightarrow>
      selectedFile (upload_step (FileInputChange files) st) = Some (hd files)
    \<and> \<not> analyzeBtn_disabled (upload_step (FileInputChange files) st)
    \<and> reading (upload_step (FileInputChange files) st) = reading st @ [hd files]
    \<and> preview (upload_step (FileInputChange files) st) = preview st
    \<and> selectedFile (upload_step (Drop files) st) = Some (hd files)
    \<and> \<not> analyzeBtn_disabled (upload_step (Drop files) st)
    \<and> reading (upload_step (Drop files) st) = reading st @ [hd files]
    \<and> preview (upload_step (Drop files) st) = preview st"
    by (simp add: handleFiles_eq)
  have b: "i < length (reading st) \<longrightarrow>
      preview (upload_step (ReaderLoad i) st)
        = js ''<img src=\"'' @ data_url (reading st ! i) @ js ''\" alt=\"Preview\">''
    \<and> selectedFile (upload_step (ReaderLoad i) st) = selectedFile st"
    by (simp add: reader_onload_def)
  have c: "upload_requests (upload_step (FileInputChange files) st) = upload_requests st"
    "upload_requests (upload_step (Drop files) st) = upload_requests st"
    by (cases files; simp add: handleFiles_def Let_def)+
  have d: "upload_requests (upload_step (ReaderLoad i) st) = upload_requests st"
    by (simp add: reader_onload_def)
  have e: "preview_follows st \<and> list_all in_order es \<and> reading (upload_run es st) = []
        \<and> selectedFile (upload_run es st) = Some f \<longrightarrow>
      preview (upload_run es st) = js ''<img src=\"'' @ data_url f @ js ''\" alt=\"Preview\">''"
    using upload_run_follows[of st es] by (auto simp: preview_follows_iff)
  from a b c d e show ?thesis by (intro conjI)
qed

text \<open>The theorem of C4 for two selections whose reads complete in order.\<close>

theorem preview_latest_when_reads_in_order_witness:
  "preview (upload_run [Drop [leaf_a], FileInputChange [leaf_b], ReaderLoad 0, ReaderLoad 0]
      empty_uploader) = js ''<img src=\"'' @ data_url leaf_b @ js ''\" alt=\"Preview\">''
   \<and> selectedFile (upload_step (Drop [leaf_a]) empty_uploader) = Some leaf_a
   \<and> \<not> analyzeBtn_disabled (upload_step (Drop [leaf_a]) empty_uploader)"
proof -
  have p: "preview_follows empty_uploader"
    by (simp add: preview_follows_def empty_uploader_def)
  have o: "list_all in_order [Drop [leaf_a], FileInputChange [leaf_b], ReaderLoad 0, ReaderLoad 0]"
    by simp
  have r: "reading (upload_run [Drop [leaf_a], FileInputChange [leaf_b], ReaderLoad 0, ReaderLoad 0]
      empty_uploader) = []"
    "selectedFile (upload_run [Drop [leaf_a], FileInputChange [leaf_b], ReaderLoad 0, ReaderLoad 0]
      empty_uploader) = Some leaf_b"
    unfolding two_files_in_order by (simp_all add: empty_uploader_def)
  have n: "[leaf_a] \<noteq> []" by simp
  from preview_latest_when_reads_in_order[of "[leaf_a]" empty_uploader 0
      "[Drop [leaf_a], FileInputChange [leaf_b], ReaderLoad 0, ReaderLoad 0]" leaf_b] p o r n
  show ?thesis by simp
qed

text \<open>
  Claim C4 as stated fails when the read of an older file completes after the read of a
  newer one: every reader's callback sets the preview, so the older file is shown while
  the newer one is selected.
\<close>

theorem stale_read_overwrites_preview:
  "selectedFile (upload_run [Drop [leaf_a], FileInputChange [leaf_b], ReaderLoad 1, ReaderLoad 0]
      empty_uploader) = Some leaf_b
   \<and> reading (upload_run [Drop [leaf_a], FileInputChange [leaf_b], ReaderLoad 1, ReaderLoad 0]
      empty_uploader) = []
   \<and> preview (upload_run [Drop [leaf_a], FileInputChange [leaf_b], ReaderLoad 1, ReaderLoad 0]
      empty_uploader) = js ''<img src=\"'' @ data_url leaf_a @ js ''\" alt=\"Preview\">''
   \<and> preview (upload_run [Drop [leaf_a], FileInputChange [leaf_b], ReaderLoad 1, ReaderLoad 0]
      empty_uploader) \<noteq> js ''<img src=\"'' @ data_url leaf_b @ js ''\" alt=\"Preview\">''"
  by (simp add: empty_uploader_def handleFiles_def Let_def reader_onload_def drop_nth_def
      leaf_a_def leaf_b_def js_def)

subsection \<open>C5\<close>

text \<open>
  Claim C5. The Enter key in the input field prevents the default action and runs the
  click handler of the send button. If the trimmed content is not empty, exactly one
  request with the trimmed text is sent and one user entry with it is appended; if the
  content is empty or white space only, which is when it trims to nothing, the page is
  unchanged.
\<close>

theorem enter_key_sends_once:
  "chatInput_keydown (js ''Enter'') st = (True, sendBtn_click st)
   \<and> chat_step (KeyDown (js ''Enter'')) st = chat_step SendClick st
   \<and> (trim (chatInput st) \<noteq> [] \<longrightarrow>
        chat_step (KeyDown (js ''Enter'')) st = sendMessage_start (trim (chatInput st)) st
        \<and> chat_requests (chat_step (KeyDown (js ''Enter'')) st) = chat_requests st @
            [\<lparr>chat_url = js ''/api/chat'', chat_method = js ''POST'',
              chat_headers = [(js ''Content-Type'', js ''application/json'')],
              chat_json = \<lparr>session_id = sessionId st, message = trim (chatInput st)\<rparr>\<rparr>]
        \<and> chatHistory (chat_step (KeyDown (js ''Enter'')) st) = chatHistory st @
            [\<lparr>className = js ''msg user'', childNodes = text_fragment [] (trim (chatInput st))\<rparr>])
   \<and> ((\<forall>c\<in>set (chatInput st). is_ws c) \<longrightarrow> chat_step (KeyDown (js ''Enter'')) st = st)
   \<and> ((trim (chatInput st) = []) = (\<forall>c\<in>set (chatInput st). is_ws c))"
proof -
  have a: "chatInput_keydown (js ''Enter'') st = (True, sendBtn_click st)"
    by (simp add: chatInput_keydown_def)
  have b: "chat_step (KeyDown (js ''Enter'')) st = chat_step SendClick st"
    by (simp add: chatInput_keydown_def)
  have c: "trim (chatInput st) \<noteq> [] \<longrightarrow>
        chat_step (KeyDown (js ''Enter'')) st = sendMessage_start (trim (chatInput st)) st
        \<and> chat_requests (chat_step (KeyDown (js ''Enter'')) st) = chat_requests st @
            [\<lparr>chat_url = js ''/api/chat'', chat_method = js ''POST'',
              chat_headers = [(js ''Content-Type'', js ''application/json'')],
              chat_json = \<lparr>session_id = sessionId st, message = trim (chatInput st)\<rparr>\<rparr>]
        \<and> chatHistory (chat_step (KeyDown (js ''Enter'')) st) = chatHistory st @
            [\<lparr>className = js ''msg user'', childNodes = text_fragment [] (trim (chatInput st))\<rparr>]"
    by (simp add: chatInput_keydown_def sendBtn_click_def Let_def sendMessage_start_eq)
  have d: "(\<forall>c\<in>set (chatInput st). is_ws c) \<longrightarrow> chat_step (KeyDown (js ''Enter'')) st = st"
    using trim_empty_iff[of "chatInput st"]
    by (simp add: chatInput_keydown_def sendBtn_click_def Let_def)
  from a b c d trim_empty_iff[of "chatInput st"] show ?thesis by (intro conjI)
qed

text \<open>The theorem of C5 for a padded word and for blanks only.\<close>

theorem enter_key_sends_once_witness:
  "map message (map chat_json (chat_requests (chat_step (KeyDown (js ''Enter'')) typed_hello)))
     = [js ''hello'']
   \<and> chat_step (KeyDown (js ''Enter'')) typed_blank = typed_blank"
proof -
  have t: "trim (chatInput typed_hello) = js ''hello''"
    by (simp add: typed_hello_def script_load_def trim_def js_def is_ws_def)
  have n: "js ''hello'' \<noteq> []" by (simp add: js_def)
  have r: "chat_requests typed_hello = []"
    by (simp add: typed_hello_def script_load_def blank_page_def)
  have w: "\<forall>c\<in>set (chatInput typed_blank). is_ws c"
    by (simp add: typed_blank_def script_load_def js_def is_ws_def)
  from t n have ne: "trim (chatInput typed_hello) \<noteq> []" by simp
  from enter_key_sends_once[of typed_hello] ne
  have "chat_requests (chat_step (KeyDown (js ''Enter'')) typed_hello) = chat_requests typed_hello @
            [\<lparr>chat_url = js ''/api/chat'', chat_method = js ''POST'',
              chat_headers = [(js ''Content-Type'', js ''application/json'')],
              chat_json = \<lparr>session_id = sessionId typed_hello,
                            message = trim (chatInput typed_hello)\<rparr>\<rparr>]"
    by blast
  then have
    "map message (map chat_json (chat_requests (chat_step (KeyDown (js ''Enter'')) typed_hello)))
     = [js ''hello'']" unfolding t r by simp
  moreover from enter_key_sends_once[of typed_blank] w
  have "chat_step (KeyDown (js ''Enter'')) typed_blank = typed_blank" by blast
  ultimately show ?thesis by simp
qed

subsection \<open>C6\<close>

text \<open>
  Claim C6. The load handler appends one bot entry with the fixed welcome text and
  replaces the quick replies by two buttons labelled \<^verbatim>\<open>How to upload a photo?\<close> and
  \<^verbatim>\<open>Tomato care tips\<close>, and it sends no request. On the page as the markup gives it,
  the transcript then holds the welcome entry and nothing else.
\<close>

theorem window_load_welcome:
  "window_load st =
     st\<lparr>chatHistory := chatHistory st @ [\<lparr>className = js ''msg bot'', childNodes = [TextNode welcome_text]\<rparr>],
        quickRepliesDiv :=
          [\<lparr>className = js ''quick-btn'', childNodes = [TextNode (js ''How to upload a photo?'')],
            onclick_arg = js ''How to upload a photo?''\<rparr>,
           \<lparr>className = js ''quick-btn'', childNodes = [TextNode (js ''Tomato care tips'')],
            onclick_arg = js ''Tomato care tips''\<rparr>]\<rparr>
   \<and> chat_requests (window_load st) = chat_requests st
   \<and> chatHistory (chat_step WindowLoad (script_load (blank_page storage))) =
        [\<lparr>className = js ''msg bot'', childNodes = [TextNode welcome_text]\<rparr>]
   \<and> map childNodes (quickRepliesDiv (chat_step WindowLoad (script_load (blank_page storage)))) =
        [[TextNode (js ''How to upload a photo?'')], [TextNode (js ''Tomato care tips'')]]
   \<and> chat_requests (chat_step WindowLoad (script_load (blank_page storage))) = []
   \<and> welcome_text = js ''Hello '' @ [0x2014] @
        js '' I can help with crop care, uploading, or disease symptoms. Try a quick suggestion.''"
  by (simp add: window_load_eq script_load_def blank_page_def welcome_text_def)

text \<open>The theorem of C6 with no stored session.\<close>

theorem window_load_welcome_witness:
  "map childNodes (chatHistory (chat_step WindowLoad (script_load (blank_page no_storage))))
     = [[TextNode welcome_text]]
   \<and> map className (chatHistory (chat_step WindowLoad (script_load (blank_page no_storage))))
     = [js ''msg bot'']
   \<and> map childNodes (quickRepliesDiv (chat_step WindowLoad (script_load (blank_page no_storage))))
     = [[TextNode (js ''How to upload a photo?'')], [TextNode (js ''Tomato care tips'')]]"
  using window_load_welcome[of "script_load (blank_page no_storage)" no_storage]
  by (simp add: script_load_def blank_page_def)

subsection \<open>C7\<close>

text \<open>
  Claim C7, as amended. In the chat flow and in the upload flow, a request that does not
  complete and a body that is not JSON reject the promise, and nothing handles the
  rejection: the page is as before, with no message and no retry. After a failed chat
  request the user entry is still in the transcript and the input field is still empty.
  The status of a response is never inspected: a response is processed by its body alone,
  whatever its status.
\<close>

theorem failures_unhandled:
  "sendMessage_resume NetworkError st = Inl FetchError
   \<and> sendMessage_resume (Response code NotJson) st = Inl SyntaxError
   \<and> chat_step (ChatSettled NetworkError) st = st\<lparr>chat_rejections := chat_rejections st @ [FetchError]\<rparr>
   \<and> chat_step (ChatSettled (Response code NotJson)) st
       = st\<lparr>chat_rejections := chat_rejections st @ [SyntaxError]\<rparr>
   \<and> chatHistory (chat_step (ChatSettled NetworkError) (sendMessage_start msg st))
       = chatHistory st @ [\<lparr>className = js ''msg user'', childNodes = text_fragment [] msg\<rparr>]
   \<and> chatInput (chat_step (ChatSettled NetworkError) (sendMessage_start msg st)) = []
   \<and> chatHistory (chat_step (ChatSettled (Response code NotJson)) (sendMessage_start msg st))
       = chatHistory st @ [\<lparr>className = js ''msg user'', childNodes = text_fragment [] msg\<rparr>]
   \<and> chatInput (chat_step (ChatSettled (Response code NotJson)) (sendMessage_start msg st)) = []
   \<and> analyzeBtn_resume NetworkError u = Inl FetchError
   \<and> analyzeBtn_resume (Response code NotJson) u = Inl SyntaxError
   \<and> upload_step (UploadSettled NetworkError) u
       = u\<lparr>upload_rejections := upload_rejections u @ [FetchError]\<rparr>
   \<and> upload_step (UploadSettled (Response code NotJson)) u
       = u\<lparr>upload_rejections := upload_rejections u @ [SyntaxError]\<rparr>
   \<and> sendMessage_resume (Response code b) st = sendMessage_resume (Response code' b) st
   \<and> analyzeBtn_resume (Response code b') u = analyzeBtn_resume (Response code' b') u"
proof -
  have a: "sendMessage_resume NetworkError st = Inl FetchError"
    "sendMessage_resume (Response code NotJson) st = Inl SyntaxError"
    by (simp_all add: sendMessage_resume_def)
  have b: "chat_step (ChatSettled NetworkError) st = st\<lparr>chat_rejections := chat_rejections st @ [FetchError]\<rparr>"
    "chat_step (ChatSettled (Response code NotJson)) st
       = st\<lparr>chat_rejections := chat_rejections st @ [SyntaxError]\<rparr>"
    by (simp_all add: sendMessage_resume_def)
  have c: "chatHistory (chat_step (ChatSettled NetworkError) (sendMessage_start msg st))
       = chatHistory st @ [\<lparr>className = js ''msg user'', childNodes = text_fragment [] msg\<rparr>]"
    "chatInput (chat_step (ChatSettled NetworkError) (sendMessage_start msg st)) = []"
    "chatHistory (chat_step (ChatSettled (Response code NotJson)) (sendMessage_start msg st))
       = chatHistory st @ [\<lparr>className = js ''msg user'', childNodes = text_fragment [] msg\<rparr>]"
    "chatInput (chat_step (ChatSettled (Response code NotJson)) (sendMessage_start msg st)) = []"
    by (simp_all add: sendMessage_resume_def sendMessage_start_eq)
  have d: "analyzeBtn_resume NetworkError u = Inl FetchError"
    "analyzeBtn_resume (Response code NotJson) u = Inl SyntaxError"
    "upload_step (UploadSettled NetworkError) u
       = u\<lparr>upload_rejections := upload_rejections u @ [FetchError]\<rparr>"
    "upload_step (UploadSettled (Response code NotJson)) u
       = u\<lparr>upload_rejections := upload_rejections u @ [SyntaxError]\<rparr>"
    by (simp_all add: analyzeBtn_resume_def)
  from a b c d sendMessage_resume_status[of code b st code']
    analyzeBtn_resume_status[of code b' u code']
  show ?thesis by (intro conjI)
qed

text \<open>The theorem of C7 for a chat request that fails and an upload answered by text.\<close>

theorem failures_unhandled_witness:
  "chatHistory (chat_step (ChatSettled NetworkError) (sendMessage_start (js ''hi'') (blank_page no_storage)))
     = [\<lparr>className = js ''msg user'', childNodes = [TextNode (js ''hi'')]\<rparr>]
   \<and> chatInput (chat_step (ChatSettled NetworkError) (sendMessage_start (js ''hi'') (blank_page no_storage)))
     = []
   \<and> upload_step (UploadSettled (Response 200 NotJson)) empty_uploader
     = empty_uploader\<lparr>upload_rejections := [SyntaxError]\<rparr>"
proof -
  note f = failures_unhandled[where st = "blank_page no_storage" and code = 200 and msg = "js ''hi''"
      and u = empty_uploader and b = NotJson and code' = 200 and b' = NotJson]
  from f have "chatHistory (chat_step (ChatSettled NetworkError)
        (sendMessage_start (js ''hi'') (blank_page no_storage)))
     = chatHistory (blank_page no_storage) @
       [\<lparr>className = js ''msg user'', childNodes = text_fragment [] (js ''hi'')\<rparr>]"
    by blast
  then have 1: "chatHistory (chat_step (ChatSettled NetworkError)
        (sendMessage_start (js ''hi'') (blank_page no_storage)))
     = [\<lparr>className = js ''msg user'', childNodes = [TextNode (js ''hi'')]\<rparr>]"
    unfolding fragment_hi by (simp add: blank_page_def)
  from f have 2: "chatInput (chat_step (ChatSettled NetworkError)
        (sendMessage_start (js ''hi'') (blank_page no_storage))) = []"
    by blast
  from f have "upload_step (UploadSettled (Response 200 NotJson)) empty_uploader
     = empty_uploader\<lparr>upload_rejections := upload_rejections empty_uploader @ [SyntaxError]\<rparr>"
    by blast
  then have 3: "upload_step (UploadSettled (Response 200 NotJson)) empty_uploader
     = empty_uploader\<lparr>upload_rejections := [SyntaxError]\<rparr>"
    by (simp add: empty_uploader_def)
  from 1 2 3 show ?thesis by (intro conjI)
qed

text \<open>
  Claim C7 as stated fails for a response that is not 2xx: with a JSON body it is no
  error at all, and its reply is shown as a bot entry.
\<close>

theorem non_2xx_reply_is_shown:
  "chatHistory (chat_step (ChatSettled (Response 500
       (Json (Some \<lparr>reply = JStr (js ''Server error''), quick_replies = None\<rparr>))))
       (sendMessage_start (js ''hi'') (blank_page no_storage)))
     = [\<lparr>className = js ''msg user'', childNodes = [TextNode (js ''hi'')]\<rparr>,
        \<lparr>className = js ''msg bot'', childNodes = [TextNode (js ''Server error'')]\<rparr>]
   \<and> chat_rejections (chat_step (ChatSettled (Response 500
       (Json (Some \<lparr>reply = JStr (js ''Server error''), quick_replies = None\<rparr>))))
       (sendMessage_start (js ''hi'') (blank_page no_storage))) = []"
proof -
  have e: "text_fragment [] (js ''Server error'') = [TextNode (js ''Server error'')]"
    by (rule text_fragment_plain) (simp_all add: js_def)
  show ?thesis
    by (simp add: sendMessage_resume_ok sendMessage_start_eq blank_page_def fragment_hi e)
qed

subsection \<open>C8\<close>

text \<open>
  Claim C8. The text \<open>displayResults\<close> assigns to the results region's
  \<^verbatim>\<open>innerHTML\<close> is the template's fixed pieces with the texts of the fields between
  them, unchanged: nothing is escaped or encoded. So whatever a rendered field holds,
  markup included, stands verbatim in that text; the fields rendered are plant, status
  and confidence, and those of the branch the status selects.
\<close>

theorem displayResults_verbatim:
  "results (displayResults r st) =
     js ''<div class=\"result-card\">\<newline>        <h3>Plant: '' @ toStr (plant r)
     @ js ''</h3>\<newline>        <p>Status: '' @ toStr (status r)
     @ js ''</p>\<newline>        <p>Confidence: '' @ toStr (confidence r) @ js ''%</p>''
     @ (if status r = JStr (js ''Diseased'') then
          js ''<p><b>Disease:</b> '' @ toStr (disease r)
          @ js ''</p>\<newline>                 <p><b>Symptoms:</b> '' @ toStr (symptoms r)
          @ js ''</p>\<newline>                 <p><b>Treatments:</b> '' @ toStr (treatments r)
          @ js ''</p>\<newline>                 <p><b>Prevention:</b> '' @ toStr (prevention r)
          @ js ''</p>''
        else js ''<p><b>Care Tips:</b> '' @ toStr (care_tips r) @ js ''</p>'')
     @ js ''</div>''
   \<and> (\<forall>m. plant r = JStr m \<longrightarrow> sublist m (results (displayResults r st)))
   \<and> (\<forall>m. status r = JStr m \<longrightarrow> sublist m (results (displayResults r st)))
   \<and> (\<forall>m. confidence r = JStr m \<longrightarrow> sublist m (results (displayResults r st)))
   \<and> (\<forall>m. status r = JStr (js ''Diseased'') \<and> disease r = JStr m \<longrightarrow>
          sublist m (results (displayResults r st)))
   \<and> (\<forall>m. status r = JStr (js ''Diseased'') \<and> symptoms r = JStr m \<longrightarrow>
          sublist m (results (displayResults r st)))
   \<and> (\<forall>m. status r = JStr (js ''Diseased'') \<and> treatments r = JStr m \<longrightarrow>
          sublist m (results (displayResults r st)))
   \<and> (\<forall>m. status r = JStr (js ''Diseased'') \<and> prevention r = JStr m \<longrightarrow>
          sublist m (results (displayResults r st)))
   \<and> (\<forall>m. status r \<noteq> JStr (js ''Diseased'') \<and> care_tips r = JStr m \<longrightarrow>
          sublist m (results (displayResults r st)))"
proof -
  have e: "results (displayResults r st) =
     js ''<div class=\"result-card\">\<newline>        <h3>Plant: '' @ toStr (plant r)
     @ js ''</h3>\<newline>        <p>Status: '' @ toStr (status r)
     @ js ''</p>\<newline>        <p>Confidence: '' @ toStr (confidence r) @ js ''%</p>''
     @ (if status r = JStr (js ''Diseased'') then
          js ''<p><b>Disease:</b> '' @ toStr (disease r)
          @ js ''</p>\<newline>                 <p><b>Symptoms:</b> '' @ toStr (symptoms r)
          @ js ''</p>\<newline>                 <p><b>Treatments:</b> '' @ toStr (treatments r)
          @ js ''</p>\<newline>                 <p><b>Prevention:</b> '' @ toStr (prevention r)
          @ js ''</p>''
        else js ''<p><b>Care Tips:</b> '' @ toStr (care_tips r) @ js ''</p>'')
     @ js ''</div>''"
    unfolding displayResults_def Let_def by simp
  have p: "\<forall>m. plant r = JStr m \<longrightarrow> sublist m (results (displayResults r st))"
    using plant_rendered[of r st] by auto
  have s: "\<forall>m. status r = JStr m \<longrightarrow> sublist m (results (displayResults r st))"
    using status_rendered[of r st] by auto
  have c: "\<forall>m. confidence r = JStr m \<longrightarrow> sublist m (results (displayResults r st))"
    using confidence_rendered[of r st] by auto
  have d: "\<forall>m. status r = JStr (js ''Diseased'') \<and> disease r = JStr m \<longrightarrow>
          sublist m (results (displayResults r st))"
    "\<forall>m. status r = JStr (js ''Diseased'') \<and> symptoms r = JStr m \<longrightarrow>
          sublist m (results (displayResults r st))"
    "\<forall>m. status r = JStr (js ''Diseased'') \<and> treatments r = JStr m \<longrightarrow>
          sublist m (results (displayResults r st))"
    "\<forall>m. status r = JStr (js ''Diseased'') \<and> prevention r = JStr m \<longrightarrow>
          sublist m (results (displayResults r st))"
    using diseased_rendered[of r st] by auto
  have t: "\<forall>m. status r \<noteq> JStr (js ''Diseased'') \<and> care_tips r = JStr m \<longrightarrow>
          sublist m (results (displayResults r st))"
    using care_tips_rendered[of r st] by auto
  from e p s c d t show ?thesis by (intro conjI)
qed

text \<open>The theorem of C8 for care tips that hold markup.\<close>

theorem displayResults_verbatim_witness:
  "sublist (js ''Water <b>regularly</b>'') (results (displayResults tomato_healthy empty_uploader))"
proof -
  have h: "status tomato_healthy \<noteq> JStr (js ''Diseased'')"
    by (simp add: tomato_healthy_def js_def)
  have c: "care_tips tomato_healthy = JStr (js ''Water <b>regularly</b>'')"
    by (simp add: tomato_healthy_def)
  from displayResults_verbatim[of tomato_healthy empty_uploader] h c
  show ?thesis by blast
qed

subsection \<open>C9\<close>

text \<open>
  Claim C9. The script binds \<open>sessionId\<close> to the value stored under
  \<^verbatim>\<open>crop_chat_session\<close> (none when the key is absent) and leaves the storage as it
  is. After any sequence of events the storage and \<open>sessionId\<close> are still the same,
  every request sent since carries that session id, and the storage is not read again:
  changing it after the script has loaded changes nothing else.
\<close>

theorem session_id_fixed_at_load:
  "sessionId (script_load st) = localStorage st (js ''crop_chat_session'')
   \<and> localStorage (script_load st) = localStorage st
   \<and> sessionId (chat_run es (script_load st)) = localStorage st (js ''crop_chat_session'')
   \<and> localStorage (chat_run es (script_load st)) = localStorage st
   \<and> (\<exists>new. chat_requests (chat_run es (script_load st)) = chat_requests st @ new
        \<and> (\<forall>rq\<in>set new. session_id (chat_json rq) = localStorage st (js ''crop_chat_session'')))
   \<and> (\<forall>s. chat_run es ((script_load st)\<lparr>localStorage := s\<rparr>)
           = (chat_run es (script_load st))\<lparr>localStorage := s\<rparr>)"
proof -
  have a: "sessionId (script_load st) = localStorage st (js ''crop_chat_session'')"
    "localStorage (script_load st) = localStorage st"
    "chat_requests (script_load st) = chat_requests st"
    by (simp_all add: script_load_def)
  have b: "sessionId (chat_run es (script_load st)) = localStorage st (js ''crop_chat_session'')"
    "localStorage (chat_run es (script_load st)) = localStorage st"
    using chat_run_session[of es "script_load st"] a by simp_all
  have c: "\<exists>new. chat_requests (chat_run es (script_load st)) = chat_requests st @ new
        \<and> (\<forall>rq\<in>set new. session_id (chat_json rq) = localStorage st (js ''crop_chat_session''))"
    using chat_run_requests[of es "script_load st"] a by simp
  have d: "\<forall>s. chat_run es ((script_load st)\<lparr>localStorage := s\<rparr>)
           = (chat_run es (script_load st))\<lparr>localStorage := s\<rparr>"
    by (simp add: chat_run_storage_unread)
  from a(1,2) b c d show ?thesis by (intro conjI)
qed

text \<open>The theorem of C9 with a stored session and with none.\<close>

theorem session_id_fixed_at_load_witness:
  "map session_id (map chat_json (chat_requests
      (chat_run [WindowLoad, UserInput (js ''hi''), SendClick, QuickReplyClick 1]
         (script_load (blank_page stored_session)))))
   = [Some (js ''abc123''), Some (js ''abc123'')]
   \<and> sessionId (chat_run [WindowLoad, QuickReplyClick 0] (script_load (blank_page no_storage))) = None"
proof -
  have t: "trim (js ''hi'') = js ''hi''"
    by (simp add: trim_def js_def is_ws_def)
  have n: "js ''hi'' \<noteq> []" by (simp add: js_def)
  have k: "stored_session (js ''crop_chat_session'') = Some (js ''abc123'')"
    by (simp add: stored_session_def)
  have l: "length (chat_requests
      (chat_run [WindowLoad, UserInput (js ''hi''), SendClick, QuickReplyClick 1]
         (script_load (blank_page stored_session)))) = 2"
    using t n by (simp add: window_load_eq sendBtn_click_def Let_def sendMessage_start_eq
        script_load_def blank_page_def strip_hi)
  obtain new where new: "chat_requests
      (chat_run [WindowLoad, UserInput (js ''hi''), SendClick, QuickReplyClick 1]
         (script_load (blank_page stored_session))) = chat_requests (blank_page stored_session) @ new"
    "\<forall>rq\<in>set new. session_id (chat_json rq)
        = localStorage (blank_page stored_session) (js ''crop_chat_session'')"
    using session_id_fixed_at_load[of "blank_page stored_session"
        "[WindowLoad, UserInput (js ''hi''), SendClick, QuickReplyClick 1]"] by blast
  from new(1) have e: "chat_requests
      (chat_run [WindowLoad, UserInput (js ''hi''), SendClick, QuickReplyClick 1]
         (script_load (blank_page stored_session))) = new"
    by (simp add: blank_page_def)
  from l e have "length new = 2" by simp
  then obtain a b where ab: "new = [a, b]"
    by (metis (no_types, opaque_lifting) One_nat_def Suc_1 length_0_conv length_Suc_conv)
  from new(2) ab k have "map session_id (map chat_json new) = [Some (js ''abc123''), Some (js ''abc123'')]"
    by (simp add: blank_page_def)
  with e have 1: "map session_id (map chat_json (chat_requests
      (chat_run [WindowLoad, UserInput (js ''hi''), SendClick, QuickReplyClick 1]
         (script_load (blank_page stored_session)))))
   = [Some (js ''abc123''), Some (js ''abc123'')]" by simp
  have 2: "sessionId (chat_run [WindowLoad, QuickReplyClick 0] (script_load (blank_page no_storage))) = None"
    using session_id_fixed_at_load[of "blank_page no_storage" "[WindowLoad, QuickReplyClick 0]"]
    by (simp add: blank_page_def no_storage_def)
  from 1 2 show ?thesis by simp
qed

subsection \<open>C10\<close>

text \<open>
  Claim C10, as amended. \<open>addMessage\<close> and \<open>renderQuickReplies\<close> put a string into the
  page through \<^verbatim>\<open>innerText\<close>: for the user's message, for the server's reply and for
  every quick-reply label, the children of the new element are the rendered text fragment
  of the string. That fragment holds text nodes and \<^verbatim>\<open>br\<close> elements only, whatever
  the string contains, so nothing of the string is parsed as markup; and the text it
  carries is the string with each CR LF pair and each other CR replaced by a line feed,
  which is the string itself when it holds no CR. A string that is not empty and holds no
  line break is the data of the element's one text node.
\<close>

theorem chat_text_is_innerText:
  "chatHistory (addMessage who (JStr s) st) = chatHistory st @
     [\<lparr>className = js ''msg '' @ (if who = js ''bot'' then js ''bot'' else js ''user''),
       childNodes = text_fragment [] s\<rparr>]
   \<and> map childNodes (quickRepliesDiv (renderQuickReplies list st)) = map (text_fragment []) list
   \<and> map onclick_arg (quickRepliesDiv (renderQuickReplies list st)) = list
   \<and> sendMessage_resume (Response code (Json (Some \<lparr>reply = JStr s, quick_replies = Some list\<rparr>))) st
        = Inr (st\<lparr>chatHistory := chatHistory st @
                    [\<lparr>className = js ''msg bot'', childNodes = text_fragment [] s\<rparr>],
                  quickRepliesDiv :=
                    map (\<lambda>q. \<lparr>className = js ''quick-btn'', childNodes = text_fragment [] q,
                               onclick_arg = q\<rparr>) list\<rparr>)
   \<and> list_all text_or_br (text_fragment [] s)
   \<and> concat (map node_text (text_fragment [] s)) = line_breaks s
   \<and> (0x0D \<notin> set s \<longrightarrow> concat (map node_text (text_fragment [] s)) = s)
   \<and> (s \<noteq> [] \<and> 0x0D \<notin> set s \<and> 0x0A \<notin> set s \<longrightarrow> text_fragment [] s = [TextNode s])"
proof -
  have a: "chatHistory (addMessage who (JStr s) st) = chatHistory st @
     [\<lparr>className = js ''msg '' @ (if who = js ''bot'' then js ''bot'' else js ''user''),
       childNodes = text_fragment [] s\<rparr>]"
    by (simp add: addMessage_history)
  have b: "map childNodes (quickRepliesDiv (renderQuickReplies list st)) = map (text_fragment []) list"
    by (simp add: renderQuickReplies_eq comp_def)
  have c: "map onclick_arg (quickRepliesDiv (renderQuickReplies list st)) = list"
    by (simp add: renderQuickReplies_eq comp_def)
  have d: "sendMessage_resume (Response code (Json (Some \<lparr>reply = JStr s, quick_replies = Some list\<rparr>))) st
        = Inr (st\<lparr>chatHistory := chatHistory st @
                    [\<lparr>className = js ''msg bot'', childNodes = text_fragment [] s\<rparr>],
                  quickRepliesDiv :=
                    map (\<lambda>q. \<lparr>className = js ''quick-btn'', childNodes = text_fragment [] q,
                               onclick_arg = q\<rparr>) list\<rparr>)"
    by (simp add: sendMessage_resume_ok)
  have e: "list_all text_or_br (text_fragment [] s)"
    by (rule text_fragment_only)
  have f: "concat (map node_text (text_fragment [] s)) = line_breaks s"
    by (simp add: text_fragment_text)
  have g: "0x0D \<notin> set s \<longrightarrow> concat (map node_text (text_fragment [] s)) = s"
    by (simp add: text_fragment_text line_breaks_plain)
  have h: "s \<noteq> [] \<and> 0x0D \<notin> set s \<and> 0x0A \<notin> set s \<longrightarrow> text_fragment [] s = [TextNode s]"
    by (simp add: text_fragment_plain)
  from a b c d e f g h show ?thesis by (intro conjI)
qed

text \<open>The theorem of C10 for strings that hold markup.\<close>

theorem chat_text_is_innerText_witness:
  "map childNodes (chatHistory (addMessage (js ''bot'') (JStr (js ''<b>hi</b>'')) (blank_page no_storage)))
     = [[TextNode (js ''<b>hi</b>'')]]
   \<and> concat (map node_text (text_fragment [] (js ''<b>hi</b>''))) = js ''<b>hi</b>''
   \<and> list_all text_or_br (text_fragment [] (js ''<b>hi</b>''))"
proof -
  have p: "js ''<b>hi</b>'' \<noteq> []" "0x0D \<notin> set (js ''<b>hi</b>'')" "0x0A \<notin> set (js ''<b>hi</b>'')"
    by (simp_all add: js_def)
  note t = chat_text_is_innerText[of "js ''bot''" "js ''<b>hi</b>''" "blank_page no_storage" "[]" 200]
  from t p have f: "text_fragment [] (js ''<b>hi</b>'') = [TextNode (js ''<b>hi</b>'')]"
    by blast
  from t have "chatHistory (addMessage (js ''bot'') (JStr (js ''<b>hi</b>'')) (blank_page no_storage))
     = chatHistory (blank_page no_storage) @
       [\<lparr>className = js ''msg '' @ (if js ''bot'' = js ''bot'' then js ''bot'' else js ''user''),
         childNodes = text_fragment [] (js ''<b>hi</b>'')\<rparr>]"
    by blast
  then have 1: "map childNodes (chatHistory (addMessage (js ''bot'') (JStr (js ''<b>hi</b>''))
      (blank_page no_storage))) = [[TextNode (js ''<b>hi</b>'')]]"
    unfolding f by (simp add: blank_page_def)
  from t p(2) have 2: "concat (map node_text (text_fragment [] (js ''<b>hi</b>''))) = js ''<b>hi</b>''"
    by blast
  from t have 3: "list_all text_or_br (text_fragment [] (js ''<b>hi</b>''))"
    by blast
  from 1 2 3 show ?thesis by (intro conjI)
qed

text \<open>
  Claim C10 as stated fails for a string that holds a CR: the setter turns the pair CR LF
  into one line break, so the text in the element is not the string.
\<close>

theorem carriage_return_becomes_line_break:
  "childNodes (last (chatHistory
      (addMessage (js ''bot'') (JStr [0x61, 0x0D, 0x0A, 0x62]) (blank_page no_storage))))
     = [TextNode [0x61], br, TextNode [0x62]]
   \<and> concat (map node_text (childNodes (last (chatHistory
      (addMessage (js ''bot'') (JStr [0x61, 0x0D, 0x0A, 0x62]) (blank_page no_storage))))))
     = [0x61, 0x0A, 0x62]
   \<and> concat (map node_text (childNodes (last (chatHistory
      (addMessage (js ''bot'') (JStr [0x61, 0x0D, 0x0A, 0x62]) (blank_page no_storage))))))
     \<noteq> [0x61, 0x0D, 0x0A, 0x62]"
  by (simp add: addMessage_history text_node_def node_text_br)

end
